theory Spec2Isabelle
  imports Complex_Main
begin

section \<open>Numbers and tables\<close>

text \<open>
  The analytics are written in Python over pandas and numpy. A Python float is modelled
  as an optional real: \<open>None\<close> is NaN, \<open>Some x\<close> is the number \<open>x\<close>. Rounding and
  infinities are left out; what is kept is what the code branches on: NaN propagates
  through arithmetic, every ordered comparison with NaN is false, and pandas reductions
  skip NaN. A data frame is the list of its rows, a row is a record of its columns.
\<close>

type_synonym pyfloat = "real option"

definition NaN :: pyfloat where
  "NaN = None"

fun fadd :: "pyfloat \<Rightarrow> pyfloat \<Rightarrow> pyfloat" where
  "fadd (Some a) (Some b) = Some (a + b)"
| "fadd _ _ = None"

fun fsub :: "pyfloat \<Rightarrow> pyfloat \<Rightarrow> pyfloat" where
  "fsub (Some a) (Some b) = Some (a - b)"
| "fsub _ _ = None"

fun fneg :: "pyfloat \<Rightarrow> pyfloat" where
  "fneg (Some a) = Some (- a)"
| "fneg None = None"

fun fabs :: "pyfloat \<Rightarrow> pyfloat" where
  "fabs (Some a) = Some \<bar>a\<bar>"
| "fabs None = None"

fun fdiv :: "pyfloat \<Rightarrow> real \<Rightarrow> pyfloat" where
  "fdiv (Some a) d = Some (a / d)"
| "fdiv None d = None"

fun flt :: "pyfloat \<Rightarrow> pyfloat \<Rightarrow> bool" where
  "flt (Some a) (Some b) = (a < b)"
| "flt _ _ = False"

fun fle :: "pyfloat \<Rightarrow> pyfloat \<Rightarrow> bool" where
  "fle (Some a) (Some b) = (a \<le> b)"
| "fle _ _ = False"

fun fgt :: "pyfloat \<Rightarrow> pyfloat \<Rightarrow> bool" where
  "fgt (Some a) (Some b) = (a > b)"
| "fgt _ _ = False"

fun fge :: "pyfloat \<Rightarrow> pyfloat \<Rightarrow> bool" where
  "fge (Some a) (Some b) = (a \<ge> b)"
| "fge _ _ = False"

text \<open>Float by float; every divisor in the code is guarded to be non-zero.\<close>

fun fquot :: "pyfloat \<Rightarrow> pyfloat \<Rightarrow> pyfloat" where
  "fquot (Some a) (Some b) = Some (a / b)"
| "fquot _ _ = None"

text \<open>\<open>==\<close> on floats: NaN equals nothing, itself included.\<close>

fun feq :: "pyfloat \<Rightarrow> pyfloat \<Rightarrow> bool" where
  "feq (Some a) (Some b) = (a = b)"
| "feq _ _ = False"

definition isna :: "pyfloat \<Rightarrow> bool" where
  "isna x = (x = None)"

text \<open>The values of a column that are numbers, in order (what \<open>skipna\<close> keeps).\<close>

fun dropna :: "pyfloat list \<Rightarrow> real list" where
  "dropna [] = []"
| "dropna (None # xs) = dropna xs"
| "dropna (Some x # xs) = x # dropna xs"

text \<open>\<open>np.mean\<close> of a Python list: NaN for the empty list and as soon as one entry is NaN.\<close>

definition np_mean :: "pyfloat list \<Rightarrow> pyfloat" where
  "np_mean xs =
     (if xs = [] \<or> None \<in> set xs then None
      else Some (sum_list (dropna xs) / real (length xs)))"

text \<open>\<open>Series.mean()\<close>, \<open>Series.min()\<close>: NaN entries are skipped, NaN when nothing is left.\<close>

definition series_mean :: "pyfloat list \<Rightarrow> pyfloat" where
  "series_mean xs =
     (case dropna xs of [] \<Rightarrow> None | y # ys \<Rightarrow> Some (sum_list (y # ys) / real (length (y # ys))))"

definition series_min :: "pyfloat list \<Rightarrow> pyfloat" where
  "series_min xs = (case dropna xs of [] \<Rightarrow> None | y # ys \<Rightarrow> Some (fold min ys y))"

text \<open>
  \<open>Series.cumsum()\<close> and \<open>Series.cummax()\<close> with the default \<open>skipna=True\<close>: a NaN
  entry gives NaN at its own position and leaves the running value untouched.
\<close>

fun cumsum_from :: "real \<Rightarrow> pyfloat list \<Rightarrow> pyfloat list" where
  "cumsum_from acc [] = []"
| "cumsum_from acc (None # xs) = None # cumsum_from acc xs"
| "cumsum_from acc (Some x # xs) = Some (acc + x) # cumsum_from (acc + x) xs"

definition cumsum :: "pyfloat list \<Rightarrow> pyfloat list" where
  "cumsum xs = cumsum_from 0 xs"

fun cummax_from :: "real option \<Rightarrow> pyfloat list \<Rightarrow> pyfloat list" where
  "cummax_from m [] = []"
| "cummax_from m (None # xs) = None # cummax_from m xs"
| "cummax_from m (Some x # xs) =
     (let m' = (case m of None \<Rightarrow> x | Some y \<Rightarrow> max y x)
      in Some m' # cummax_from (Some m') xs)"

definition cummax :: "pyfloat list \<Rightarrow> pyfloat list" where
  "cummax xs = cummax_from None xs"

text \<open>\<open>Series.unique()\<close>: the distinct values in order of first appearance.\<close>

definition unique :: "'a list \<Rightarrow> 'a list" where
  "unique xs = rev (remdups (rev xs))"

text \<open>
  \<open>Series.std()\<close> of pandas is the sample standard deviation (\<open>ddof=1\<close>) of the
  entries that are numbers, NaN when fewer than two are left; \<open>np.std\<close> is the
  population standard deviation of the whole list.
\<close>

definition series_std :: "pyfloat list \<Rightarrow> pyfloat" where
  "series_std xs =
     (let ys = dropna xs; n = length ys
      in if n < 2 then None
         else (let m = sum_list ys / real n
               in Some (sqrt (sum_list (map (\<lambda>y. (y - m)\<^sup>2) ys) / real (n - 1)))))"

definition np_std :: "pyfloat list \<Rightarrow> pyfloat" where
  "np_std xs =
     (case np_mean xs of None \<Rightarrow> None
      | Some m \<Rightarrow> Some (sqrt (sum_list (map (\<lambda>y. (y - m)\<^sup>2) (dropna xs)) / real (length xs))))"

text \<open>\<open>np.average(values, weights=weights)\<close> with lap counts as weights.\<close>

definition np_average :: "pyfloat list \<Rightarrow> nat list \<Rightarrow> pyfloat" where
  "np_average vs ws =
     (if None \<in> set vs then None
      else Some (sum_list (map2 (\<lambda>v w. v * real w) (dropna vs) ws) / real (sum_list ws)))"

text \<open>
  \<open>np.percentile(a, q)\<close> with numpy's default linear interpolation, for a non-empty
  array: the value at the virtual index \<open>q/100 * (n - 1)\<close> of the sorted array.
  \<open>Series.quantile\<close> and \<open>Series.median\<close> are the same rule on the entries that are
  numbers, and NaN when there is none.
\<close>

definition np_percentile :: "real list \<Rightarrow> real \<Rightarrow> real" where
  "np_percentile a q =
     (let s = sort a; n = length s;
          virtual = q / 100 * real (n - 1);
          lo = nat \<lfloor>virtual\<rfloor>;
          hi = min (lo + 1) (n - 1);
          g = virtual - real lo
      in s ! lo + (s ! hi - s ! lo) * g)"

definition series_quantile :: "pyfloat list \<Rightarrow> real \<Rightarrow> pyfloat" where
  "series_quantile xs q =
     (case dropna xs of [] \<Rightarrow> None | y # ys \<Rightarrow> Some (np_percentile (y # ys) (q * 100)))"

definition series_median :: "pyfloat list \<Rightarrow> pyfloat" where
  "series_median xs = series_quantile xs (1 / 2)"

text \<open>\<open>np.clip(x, lo, hi)\<close>.\<close>

definition np_clip :: "real \<Rightarrow> real \<Rightarrow> real \<Rightarrow> real" where
  "np_clip x lo hi = min (max x lo) hi"

text \<open>
  \<open>sort_values(by=..., ascending=False)\<close>: rows with a number in the key column by
  decreasing key, rows with equal keys in the order they had, rows with NaN last.
\<close>

definition sort_values_desc :: "('a \<Rightarrow> pyfloat) \<Rightarrow> 'a list \<Rightarrow> 'a list" where
  "sort_values_desc key rows =
     sort_key (\<lambda>r. - the (key r)) (filter (\<lambda>r. key r \<noteq> None) rows)
       @ filter (\<lambda>r. key r = None) rows"

text \<open>
  What the data provider hands over besides the laps: the driver numbers of the session,
  the abbreviation of each driver (\<open>get_driver\<close>), and the results table as (driver number, team name,
  position) triples.
\<close>

record session =
  drivers :: "string list"
  get_driver :: "string \<Rightarrow> string"
  results :: "(string \<times> string \<times> string) list"

definition team_name :: "session \<Rightarrow> string \<Rightarrow> string" where
  "team_name sess driver_number =
     (case filter (\<lambda>(d, t, p). d = driver_number) (results sess) of
        [] \<Rightarrow> ''N/A'' | (d, t, p) # _ \<Rightarrow> t)"

definition position :: "session \<Rightarrow> string \<Rightarrow> string" where
  "position sess driver_number =
     (case filter (\<lambda>(d, t, p). d = driver_number) (results sess) of
        [] \<Rightarrow> ''N/A'' | (d, t, p) # _ \<Rightarrow> p)"

section \<open>Ratio engine (driver\_sharpe\_ratio.py, driver\_sortino\_ratio.py)\<close>

text \<open>
  A row of \<open>laps\<close>, the green-flag quick laps, once the benchmark of its stint and
  compound has been looked up (NaN where there is no model).
\<close>

record ratio_lap =
  DriverNumber :: string
  Stint :: pyfloat
  LapTimeSeconds :: pyfloat
  BenchmarkTime :: pyfloat
  LapTimeDelta :: pyfloat

text \<open>
  \<open>laps['LapTimeDelta'] = ...\<close> followed by \<open>laps.dropna(subset=['LapTimeDelta'])\<close>.
\<close>

definition with_delta :: "ratio_lap list \<Rightarrow> ratio_lap list" where
  "with_delta laps =
     filter (\<lambda>r. \<not> isna (LapTimeDelta r))
       (map (\<lambda>r. r\<lparr> LapTimeDelta := fsub (LapTimeSeconds r) (BenchmarkTime r) \<rparr>) laps)"

definition stint_laps :: "ratio_lap list \<Rightarrow> pyfloat \<Rightarrow> ratio_lap list" where
  "stint_laps driver_laps stint_number = filter (\<lambda>r. feq (Stint r) stint_number) driver_laps"

text \<open>The downside subset and the Sortino ratio of one stint, as both files compute them.\<close>

definition downside_deltas :: "pyfloat list \<Rightarrow> pyfloat list" where
  "downside_deltas deltas = filter (\<lambda>d. fgt d (series_mean deltas)) deltas"

definition sortino_ratio :: "pyfloat list \<Rightarrow> pyfloat" where
  "sortino_ratio deltas =
     (let mean_delta = series_mean deltas;
          downside = downside_deltas deltas
      in if downside \<noteq> []
         then (let downside_std_dev = series_std downside
               in if fgt downside_std_dev (Some (1 / 1000000))
                  then fquot (fneg mean_delta) downside_std_dev
                  else Some 0)
         else Some 0)"

definition sharpe_ratio :: "pyfloat list \<Rightarrow> pyfloat" where
  "sharpe_ratio deltas =
     (let mean_delta = series_mean deltas;
          std_dev_delta = series_std deltas
      in if fgt std_dev_delta (Some (1 / 1000000))
         then fquot (fneg mean_delta) std_dev_delta
         else Some 0)"

text \<open>
  One pass of the stint loop: what is appended to the five lists, or nothing when the
  stint has fewer than 3 laps (\<open>continue\<close>).
\<close>

record stint_entry =
  st_sharpe :: pyfloat
  st_sortino :: pyfloat
  st_weight :: nat
  st_mean_delta :: pyfloat
  st_std_dev :: pyfloat

definition sharpe_stint :: "ratio_lap list \<Rightarrow> pyfloat \<Rightarrow> stint_entry option" where
  "sharpe_stint driver_laps stint_number =
     (let sl = stint_laps driver_laps stint_number;
          deltas = map LapTimeDelta sl
      in if length sl < 3 then None
         else Some \<lparr> st_sharpe = sharpe_ratio deltas,
                     st_sortino = sortino_ratio deltas,
                     st_weight = length sl,
                     st_mean_delta = series_mean deltas,
                     st_std_dev = series_std deltas \<rparr>)"

text \<open>
  In the Sortino file the fifth list holds the downside deviation, which starts at 0 and
  is overwritten only when the downside subset is non-empty; there is no Sharpe ratio.
\<close>

definition sortino_stint :: "ratio_lap list \<Rightarrow> pyfloat \<Rightarrow> stint_entry option" where
  "sortino_stint driver_laps stint_number =
     (let sl = stint_laps driver_laps stint_number;
          deltas = map LapTimeDelta sl
      in if length sl < 3 then None
         else Some \<lparr> st_sharpe = Some 0,
                     st_sortino = sortino_ratio deltas,
                     st_weight = length sl,
                     st_mean_delta = series_mean deltas,
                     st_std_dev = (if downside_deltas deltas \<noteq> []
                                   then series_std (downside_deltas deltas) else Some 0) \<rparr>)"

record sharpe_row =
  Driver :: string
  Team :: string
  Position :: string
  Mean_Delta_vs_Benchmark :: pyfloat
  Lap_Time_Std_Dev :: pyfloat
  Driver_Sharpe_Ratio :: pyfloat
  Driver_Sortino_Ratio :: pyfloat
  Laps_Count :: nat

text \<open>
  The body of \<open>for driver_number in drivers\<close> in the Sharpe file: the row appended to
  \<open>driver_analysis\<close>, or nothing when the driver has no laps or no stint passed the
  3-lap minimum.
\<close>

definition sharpe_driver :: "session \<Rightarrow> ratio_lap list \<Rightarrow> string \<Rightarrow> sharpe_row option" where
  "sharpe_driver sess laps driver_number =
     (let driver_laps = filter (\<lambda>r. DriverNumber r = driver_number) laps
      in if driver_laps = [] then None
         else (let es = List.map_filter (sharpe_stint driver_laps) (unique (map Stint driver_laps));
                   stint_weights = map st_weight es
               in if es = [] then None
                  else Some \<lparr> Driver = get_driver sess driver_number,
                              Team = team_name sess driver_number,
                              Position = position sess driver_number,
                              Mean_Delta_vs_Benchmark = np_average (map st_mean_delta es) stint_weights,
                              Lap_Time_Std_Dev = np_average (map st_std_dev es) stint_weights,
                              Driver_Sharpe_Ratio = np_average (map st_sharpe es) stint_weights,
                              Driver_Sortino_Ratio = np_average (map st_sortino es) stint_weights,
                              Laps_Count = sum_list stint_weights \<rparr>))"

text \<open>
  \<open>calculate_driver_sharpe_ratio\<close> from the green-flag laps on: \<open>None\<close> when there are
  no laps or no row, else the table sorted by Sharpe ratio.
\<close>

definition calculate_driver_sharpe_ratio :: "session \<Rightarrow> ratio_lap list \<Rightarrow> sharpe_row list option" where
  "calculate_driver_sharpe_ratio sess laps =
     (if laps = [] then None
      else (let driver_analysis = List.map_filter (sharpe_driver sess (with_delta laps)) (drivers sess)
            in if driver_analysis = [] then None
               else Some (sort_values_desc Driver_Sharpe_Ratio driver_analysis)))"

record sortino_row =
  Driver :: string
  Team :: string
  Position :: string
  Mean_Delta_vs_Benchmark :: pyfloat
  Downside_Deviation :: pyfloat
  Driver_Sortino_Ratio :: pyfloat
  Laps_Count :: nat

definition sortino_driver :: "session \<Rightarrow> ratio_lap list \<Rightarrow> string \<Rightarrow> sortino_row option" where
  "sortino_driver sess laps driver_number =
     (let driver_laps = filter (\<lambda>r. DriverNumber r = driver_number) laps
      in if driver_laps = [] then None
         else (let es = List.map_filter (sortino_stint driver_laps) (unique (map Stint driver_laps));
                   stint_weights = map st_weight es
               in if es = [] then None
                  else Some \<lparr> Driver = get_driver sess driver_number,
                              Team = team_name sess driver_number,
                              Position = position sess driver_number,
                              Mean_Delta_vs_Benchmark = np_average (map st_mean_delta es) stint_weights,
                              Downside_Deviation = np_average (map st_std_dev es) stint_weights,
                              Driver_Sortino_Ratio = np_average (map st_sortino es) stint_weights,
                              Laps_Count = sum_list stint_weights \<rparr>))"

definition calculate_driver_sortino_ratio :: "session \<Rightarrow> ratio_lap list \<Rightarrow> sortino_row list option" where
  "calculate_driver_sortino_ratio sess laps =
     (if laps = [] then None
      else (let driver_analysis = List.map_filter (sortino_driver sess (with_delta laps)) (drivers sess)
            in if driver_analysis = [] then None
               else Some (sort_values_desc Driver_Sortino_Ratio driver_analysis)))"

section \<open>Configuration (config.py)\<close>

record config =
  UNDER_PRESSURE_THRESHOLD_SECONDS :: real
  SC_EQUITY_FREEZE :: bool
  DRAWDOWN_ENTRY_THRESHOLD :: real
  RECOVERY_COMPLETE_THRESHOLD :: real
  MIN_RECOVERY_DURATION :: real
  INCIDENT_THRESHOLD_OPERATIONAL :: real
  INCIDENT_THRESHOLD_MAJOR :: real
  INCIDENT_THRESHOLD_TRAFFIC :: real
  MDD_BUFFER_SECONDS :: real

definition default_config :: config where
  "default_config =
     \<lparr> UNDER_PRESSURE_THRESHOLD_SECONDS = 1,
       SC_EQUITY_FREEZE = True,
       DRAWDOWN_ENTRY_THRESHOLD = - (1 / 10),
       RECOVERY_COMPLETE_THRESHOLD = - (5 / 100),
       MIN_RECOVERY_DURATION = 1,
       INCIDENT_THRESHOLD_OPERATIONAL = 5 / 2,
       INCIDENT_THRESHOLD_MAJOR = 2,
       INCIDENT_THRESHOLD_TRAFFIC = 2 / 10,
       MDD_BUFFER_SECONDS = 2 \<rparr>"

section \<open>Equity accumulator (execution\_equity.py)\<close>

text \<open>
  A row of \<open>all_laps\<close> with the columns the equity code reads or writes. The columns
  up to \<open>RawDelta\<close> are there when step 6 starts (lap time minus expected pace, NaN where
  either is missing); the later ones are assigned by the code below. The table returned
  at the end is a projection of these rows on nine of the columns.
\<close>

record lap_row =
  DriverNumber :: string
  LapNumber :: real
  IsPit :: bool
  IsSC :: bool
  IntervalToAhead :: pyfloat
  IntervalToBehind :: pyfloat
  RawDelta :: pyfloat
  InTraffic :: bool
  UnderPressure :: bool
  EquityChange :: pyfloat
  FailureType :: string
  ExecutionEquity :: pyfloat
  Driver :: string
  WasSC :: bool
  RestartLap :: bool

text \<open>\<open>valid_gaps\<close> of \<open>estimate_traffic_threshold_dynamically\<close>.\<close>

definition valid_gaps :: "lap_row list \<Rightarrow> real list" where
  "valid_gaps all_laps =
     dropna (map IntervalToAhead
       (filter (\<lambda>r. \<not> IsPit r \<and> \<not> IsSC r
                     \<and> fgt (IntervalToAhead r) (Some (1 / 10))
                     \<and> flt (IntervalToAhead r) (Some 9)) all_laps))"

definition estimate_traffic_threshold_dynamically :: "lap_row list \<Rightarrow> real" where
  "estimate_traffic_threshold_dynamically all_laps =
     (if length (valid_gaps all_laps) < 50 then 13 / 10
      else (let threshold = np_percentile (valid_gaps all_laps) 50
            in np_clip threshold (8 / 10) 3))"

text \<open>
  \<open>calculate_equity_change(row)\<close>. The closure reads \<open>avg_pit_loss\<close>; the module imports
  \<open>SC_EQUITY_FREEZE\<close> with the rest of the configuration, so the configuration is passed
  as well, and the body is the source's.
\<close>

definition calculate_equity_change :: "config \<Rightarrow> pyfloat \<Rightarrow> lap_row \<Rightarrow> pyfloat" where
  "calculate_equity_change cfg avg_pit_loss row =
     (if IsSC row then Some 0
      else if IsPit row then
        (let loss = fsub (RawDelta row) avg_pit_loss in fneg loss)
      else if \<not> isna (RawDelta row) then fneg (RawDelta row)
      else Some 0)"

definition avg_pit_loss_of :: "lap_row list \<Rightarrow> pyfloat" where
  "avg_pit_loss_of all_laps =
     (let pit_laps = filter (\<lambda>r. IsPit r \<and> \<not> IsSC r) all_laps
      in if pit_laps \<noteq> [] then series_median (map RawDelta pit_laps) else Some 20)"

text \<open>\<open>np.select(conditions, choices, default='None')\<close>: the first condition that holds.\<close>

definition failure_type :: "config \<Rightarrow> lap_row \<Rightarrow> string" where
  "failure_type cfg r =
     (if IsPit r \<and> flt (EquityChange r) (Some (- INCIDENT_THRESHOLD_OPERATIONAL cfg))
        then ''Operational''
      else if \<not> IsPit r \<and> flt (EquityChange r) (Some (- INCIDENT_THRESHOLD_MAJOR cfg))
        then ''Major Incident''
      else if InTraffic r \<and> flt (EquityChange r) (Some (- INCIDENT_THRESHOLD_TRAFFIC cfg))
        then ''Traffic''
      else ''None'')"

text \<open>Steps 2 (flags) to 7 on the whole table.\<close>

definition attributed_laps :: "config \<Rightarrow> lap_row list \<Rightarrow> lap_row list" where
  "attributed_laps cfg all_laps =
     (let traffic_threshold = estimate_traffic_threshold_dynamically all_laps;
          avg_pit_loss = avg_pit_loss_of all_laps
      in map (\<lambda>r.
           (let r1 = r\<lparr> InTraffic := flt (IntervalToAhead r) (Some traffic_threshold),
                        UnderPressure := flt (IntervalToBehind r)
                                           (Some (UNDER_PRESSURE_THRESHOLD_SECONDS cfg)) \<rparr>;
                r2 = r1\<lparr> EquityChange := calculate_equity_change cfg avg_pit_loss r1 \<rparr>
            in r2\<lparr> FailureType := failure_type cfg r2 \<rparr>)) all_laps)"

text \<open>\<open>shift(1, fill_value=False)\<close> on a boolean column.\<close>

definition shift1 :: "bool list \<Rightarrow> bool list" where
  "shift1 bs = take (length bs) (False # bs)"

text \<open>
  Step 8 for one driver: the driver's laps by lap number, with the running sum of the
  equity changes, the abbreviation and the restart flag.
\<close>

definition driver_curve :: "session \<Rightarrow> lap_row list \<Rightarrow> string \<Rightarrow> lap_row list" where
  "driver_curve sess all_laps driver =
     (let d_laps = sort_key LapNumber (filter (\<lambda>r. DriverNumber r = driver) all_laps)
      in map (\<lambda>(r, e, w). r\<lparr> ExecutionEquity := e,
                               Driver := get_driver sess driver,
                               WasSC := w,
                               RestartLap := (w \<and> \<not> IsSC r) \<rparr>)
           (zip d_laps (zip (cumsum (map EquityChange d_laps)) (shift1 (map IsSC d_laps)))))"

text \<open>
  \<open>calculate_execution_equity\<close> from step 6 on. Drivers without laps are skipped;
  \<open>pd.concat\<close> of no curve at all raises, which the function turns into \<open>None\<close>.
\<close>

definition calculate_execution_equity :: "config \<Rightarrow> session \<Rightarrow> lap_row list \<Rightarrow> lap_row list option" where
  "calculate_execution_equity cfg sess all_laps =
     (let laps = attributed_laps cfg all_laps;
          equity_curves = filter (\<lambda>c. c \<noteq> []) (map (driver_curve sess laps) (drivers sess))
      in if equity_curves = [] then None else Some (concat equity_curves))"

section \<open>Drawdown metrics (drawdown\_metrics.py)\<close>

text \<open>A row of \<open>d_df\<close>: a row of the equity table with the two columns the detector adds.\<close>

record dd_row = lap_row +
  Peak :: pyfloat
  Drawdown :: pyfloat

definition with_drawdown :: "lap_row list \<Rightarrow> dd_row list" where
  "with_drawdown rows =
     map (\<lambda>(r, p). lap_row.extend r \<lparr> Peak = p, Drawdown = fsub (ExecutionEquity r) p \<rparr>)
         (zip rows (cummax (map ExecutionEquity rows)))"

text \<open>
  \<open>d_df\<close>: the laps of one driver sorted by lap number, with \<open>Peak\<close> and \<open>Drawdown\<close>.
\<close>

definition driver_frame :: "lap_row list \<Rightarrow> string \<Rightarrow> dd_row list" where
  "driver_frame equity_df driver =
     with_drawdown (sort_key LapNumber (filter (\<lambda>r. Driver r = driver) equity_df))"

text \<open>The local variables of the episode scan.\<close>

record scan_state =
  in_dd :: bool
  trough_lap :: real
  trough_equity :: pyfloat
  current_failure_type :: string
  recovery_velocities :: "pyfloat list"
  recovery_curvatures :: "pyfloat list"
  recovery_types :: "string list"

definition scan_init :: scan_state where
  "scan_init =
     \<lparr> in_dd = False, trough_lap = 0, trough_equity = Some 0,
       current_failure_type = ''None'',
       recovery_velocities = [], recovery_curvatures = [], recovery_types = [] \<rparr>"

text \<open>
  The quadratic fit \<open>np.polyfit(x, y, 2)\<close> belongs to numpy; its leading coefficient is
  taken as a parameter \<open>polyfit\<close>, which answers \<open>None\<close> where numpy raises (the code
  then records 0.0).
\<close>

type_synonym polyfit2 = "real list \<Rightarrow> pyfloat list \<Rightarrow> pyfloat option"

definition recovery_curvature :: "polyfit2 \<Rightarrow> dd_row list \<Rightarrow> real \<Rightarrow> real \<Rightarrow> pyfloat" where
  "recovery_curvature polyfit d_df t_lap end_lap =
     (let recovery_segment = filter (\<lambda>r. LapNumber r \<ge> t_lap \<and> LapNumber r \<le> end_lap) d_df;
          x = map (\<lambda>r. LapNumber r - t_lap) recovery_segment;
          y = map ExecutionEquity recovery_segment
      in if length recovery_segment > 2
         then (case polyfit x y of Some c \<Rightarrow> c | None \<Rightarrow> Some 0)
         else Some 0)"

text \<open>One iteration of \<open>for idx, row in d_df.iterrows()\<close>.\<close>

definition scan_step :: "config \<Rightarrow> polyfit2 \<Rightarrow> dd_row list \<Rightarrow> scan_state \<Rightarrow> dd_row \<Rightarrow> scan_state" where
  "scan_step cfg polyfit d_df s row =
     (if flt (Drawdown row) (Some (DRAWDOWN_ENTRY_THRESHOLD cfg)) then
        (let s1 = (if \<not> in_dd s
                   then s\<lparr> in_dd := True, trough_lap := LapNumber row,
                           trough_equity := ExecutionEquity row,
                           current_failure_type := FailureType row \<rparr>
                   else s)
         in if flt (ExecutionEquity row) (trough_equity s1)
            then s1\<lparr> trough_equity := ExecutionEquity row, trough_lap := LapNumber row \<rparr>
            else s1)
      else if in_dd s \<and> fge (Drawdown row) (Some (RECOVERY_COMPLETE_THRESHOLD cfg)) then
        (let end_lap = LapNumber row;
             duration = end_lap - trough_lap s;
             s1 = s\<lparr> in_dd := False \<rparr>
         in if duration > MIN_RECOVERY_DURATION cfg
            then s1\<lparr> recovery_velocities := recovery_velocities s
                          @ [fdiv (fabs (fsub (ExecutionEquity row) (trough_equity s))) duration],
                      recovery_types := recovery_types s @ [current_failure_type s],
                      recovery_curvatures := recovery_curvatures s
                          @ [recovery_curvature polyfit d_df (trough_lap s) end_lap] \<rparr>
            else s1)
      else s)"

text \<open>The scan over the laps \<open>rows\<close> seen so far, from the initial state.\<close>

definition scan :: "config \<Rightarrow> polyfit2 \<Rightarrow> dd_row list \<Rightarrow> dd_row list \<Rightarrow> scan_state" where
  "scan cfg polyfit d_df rows = foldl (scan_step cfg polyfit d_df) scan_init rows"

text \<open>
  \<open>relevant_rates\<close>: the velocities of the episodes of one type, and the two ways the
  summary fills \<open>type_recovery\<close>: the loop over the three types, then the second
  assignment to \<open>'Traffic Resilience'\<close> that replaces the loop's value.
\<close>

definition relevant_rates :: "pyfloat list \<Rightarrow> string list \<Rightarrow> string \<Rightarrow> pyfloat list" where
  "relevant_rates velocities types r_type =
     map fst (filter (\<lambda>(v, t). t = r_type) (zip velocities types))"

definition type_resilience :: "pyfloat list \<Rightarrow> string list \<Rightarrow> string \<Rightarrow> pyfloat" where
  "type_resilience velocities types r_type =
     (if relevant_rates velocities types r_type = [] then NaN
      else np_mean (relevant_rates velocities types r_type))"

definition traffic_resilience :: "pyfloat list \<Rightarrow> string list \<Rightarrow> pyfloat" where
  "traffic_resilience velocities types =
     (let traffic_rates = relevant_rates velocities types ''Traffic''
      in if traffic_rates \<noteq> [] then np_mean traffic_rates
         else (if velocities \<noteq> [] then np_mean velocities else NaN))"

text \<open>
  A row of the per-race summary. The seasonal summary that the profiler reads keeps the
  columns of \<open>summary_row\<close>; the per-race table has those of \<open>metrics_row\<close> on top.
\<close>

record summary_row =
  Driver :: string
  Max_Drawdown :: pyfloat
  Reset_Velocity :: pyfloat
  Restart_Delta :: pyfloat
  Major_Incident_Resilience :: pyfloat
  Traffic_Resilience :: pyfloat
  Operational_Resilience :: pyfloat
  Recovery_Curvature :: pyfloat
  Recovery_Shape :: string

record metrics_row = summary_row +
  Reset_Velocity_CI_Lower :: pyfloat
  Reset_Velocity_CI_Upper :: pyfloat
  Driver_Error_Resilience :: pyfloat
  Spin_Off_Track_Resilience :: pyfloat
  Lockup_Error_Resilience :: pyfloat

definition recovery_shape :: "pyfloat \<Rightarrow> string" where
  "recovery_shape avg_curvature =
     (if fgt avg_curvature (Some (15 / 1000)) then ''V-Shape''
      else if flt avg_curvature (Some (- (15 / 1000))) then ''U-Shape''
      else ''Linear'')"

text \<open>The half-width \<open>1.96 * rv_std / sqrt(n)\<close> of the confidence interval.\<close>

definition ci_half_width :: "pyfloat list \<Rightarrow> pyfloat" where
  "ci_half_width velocities =
     (let rv_std = (if length velocities > 1 then np_std velocities else Some 0)
      in fdiv (case rv_std of None \<Rightarrow> None | Some s \<Rightarrow> Some (196 / 100 * s))
              (sqrt (real (length velocities))))"

text \<open>The body of \<open>for driver in equity_df['Driver'].unique()\<close>.\<close>

definition driver_metrics :: "config \<Rightarrow> polyfit2 \<Rightarrow> lap_row list \<Rightarrow> string \<Rightarrow> metrics_row" where
  "driver_metrics cfg polyfit equity_df driver =
     (let d_df = driver_frame equity_df driver;
          mdd = series_min (map Drawdown d_df);
          s = scan cfg polyfit d_df d_df;
          velocities = recovery_velocities s;
          types = recovery_types s;
          restart_laps = filter RestartLap d_df;
          avg_restart_delta = (if restart_laps \<noteq> [] then series_mean (map EquityChange restart_laps)
                               else Some 0);
          major = type_resilience velocities types ''Major Incident'';
          operational = type_resilience velocities types ''Operational'';
          traffic = traffic_resilience velocities types;
          rv_mean = (if velocities \<noteq> [] then np_mean velocities else Some 0);
          rv_ci_lower = (if velocities \<noteq> [] then fsub rv_mean (ci_half_width velocities) else Some 0);
          rv_ci_upper = (if velocities \<noteq> [] then fadd rv_mean (ci_half_width velocities) else Some 0);
          avg_curvature = (if velocities \<noteq> [] \<and> recovery_curvatures s \<noteq> []
                           then np_mean (recovery_curvatures s) else Some 0)
      in \<lparr> Driver = driver,
           Max_Drawdown = mdd,
           Reset_Velocity = rv_mean,
           Restart_Delta = avg_restart_delta,
           Major_Incident_Resilience = major,
           Traffic_Resilience = traffic,
           Operational_Resilience = operational,
           Recovery_Curvature = avg_curvature,
           Recovery_Shape = recovery_shape avg_curvature,
           Reset_Velocity_CI_Lower = rv_ci_lower,
           Reset_Velocity_CI_Upper = rv_ci_upper,
           Driver_Error_Resilience = major,
           Spin_Off_Track_Resilience = Some 1,
           Lockup_Error_Resilience = (if \<not> isna major then major else Some 1) \<rparr>)"

definition calculate_drawdown_metrics :: "config \<Rightarrow> polyfit2 \<Rightarrow> lap_row list \<Rightarrow> metrics_row list" where
  "calculate_drawdown_metrics cfg polyfit equity_df =
     map (driver_metrics cfg polyfit equity_df) (unique (map lap_row.Driver equity_df))"

section \<open>Archetype classifier (resilience\_profiler.py)\<close>











section \<open>Example inputs\<close>

text \<open>A lap of the equity table with the columns the examples do not vary filled in.\<close>

definition lap :: "string \<Rightarrow> real \<Rightarrow> pyfloat \<Rightarrow> pyfloat \<Rightarrow> string \<Rightarrow> lap_row" where
  "lap d n c e t =
     \<lparr> DriverNumber = ''1'', LapNumber = n, IsPit = False, IsSC = False,
       IntervalToAhead = Some 10, IntervalToBehind = Some 10, RawDelta = fneg c,
       InTraffic = False, UnderPressure = False, EquityChange = c, FailureType = t,
       ExecutionEquity = e, Driver = d, WasSC = False, RestartLap = False \<rparr>"

definition no_fit :: polyfit2 where
  "no_fit x y = None"

text \<open>
  Three laps: level, a drop of one second, then back up to 0.07 s under the peak, which is
  above the entry threshold and below the exit threshold.
\<close>

definition band_laps :: "lap_row list" where
  "band_laps =
     [lap ''VER'' 1 (Some 0) (Some 0) ''None'',
      lap ''VER'' 2 (Some (- 1)) (Some (- 1)) ''None'',
      lap ''VER'' 3 (Some (93 / 100)) (Some (- (7 / 100))) ''None'']"

text \<open>A lap of \<open>all_laps\<close> as step 6 finds it; the later columns are still to be assigned.\<close>

definition raw_lap :: "string \<Rightarrow> real \<Rightarrow> bool \<Rightarrow> bool \<Rightarrow> pyfloat \<Rightarrow> lap_row" where
  "raw_lap d n pit sc delta =
     \<lparr> DriverNumber = d, LapNumber = n, IsPit = pit, IsSC = sc,
       IntervalToAhead = Some 10, IntervalToBehind = Some 10, RawDelta = delta,
       InTraffic = False, UnderPressure = False, EquityChange = Some 0, FailureType = ''None'',
       ExecutionEquity = Some 0, Driver = [], WasSC = False, RestartLap = False \<rparr>"

definition two_drivers :: session where
  "two_drivers =
     \<lparr> drivers = [''1'', ''4''],
       get_driver = (\<lambda>d. if d = ''1'' then ''VER'' else ''NOR''),
       results = [] \<rparr>"

text \<open>
  Driver 1 runs three green laps, the second a pit lap without a lap time (no raw delta);
  driver 4 has one pit lap that lost 20 s, which makes the average pit loss 20 s.
\<close>

definition missing_pit_delta_laps :: "lap_row list" where
  "missing_pit_delta_laps =
     [raw_lap ''1'' 1 False False (Some 1),
      raw_lap ''1'' 2 True False None,
      raw_lap ''1'' 3 False False (Some 1),
      raw_lap ''4'' 1 True False (Some 20)]"

text \<open>
  Three drivers. VER drops 3 s on a lap attributed to a major incident and is back at the
  peak two laps later. NOR loses 1 s in traffic, recovers in two laps, then loses 4 s at a
  pit stop and recovers in two laps. HAM never moves.
\<close>

definition episode_laps :: "lap_row list" where
  "episode_laps =
     [lap ''VER'' 1 (Some 0) (Some 0) ''None'',
      lap ''VER'' 2 (Some (- 3)) (Some (- 3)) ''Major Incident'',
      lap ''VER'' 3 (Some 2) (Some (- 1)) ''None'',
      lap ''VER'' 4 (Some 1) (Some 0) ''None'',
      lap ''NOR'' 1 (Some 0) (Some 0) ''None'',
      lap ''NOR'' 2 (Some (- 1)) (Some (- 1)) ''Traffic'',
      lap ''NOR'' 3 (Some (1 / 2)) (Some (- (1 / 2))) ''None'',
      lap ''NOR'' 4 (Some (1 / 2)) (Some 0) ''None'',
      lap ''NOR'' 5 (Some (- 4)) (Some (- 4)) ''Operational'',
      lap ''NOR'' 6 (Some 2) (Some (- 2)) ''None'',
      lap ''NOR'' 7 (Some 2) (Some 0) ''None'',
      lap ''HAM'' 1 (Some 0) (Some 0) ''None'',
      lap ''HAM'' 2 (Some 0) (Some 0) ''None'']"

text \<open>Three laps of driver 1 with their equity changes, out of lap order.\<close>

definition shuffled_laps :: "lap_row list" where
  "shuffled_laps =
     [lap ''VER'' 2 (Some (- 1)) (Some 0) ''None'',
      lap ''VER'' 3 (Some (1 / 2)) (Some 0) ''None'',
      lap ''VER'' 1 (Some 2) (Some 0) ''None'']"

text \<open>
  The calibration in the words of the specification: a lap counts when it is neither a
  pit lap nor a caution lap and its gap to the car ahead is strictly between 0.1 s and
  9.0 s; the 50th percentile of a sample is its median, the middle value of the sorted
  sample or the mean of the two middle values.
\<close>

definition valid_gap_lap :: "lap_row \<Rightarrow> bool" where
  "valid_gap_lap r =
     (\<not> IsPit r \<and> \<not> IsSC r
      \<and> (case IntervalToAhead r of None \<Rightarrow> False | Some g \<Rightarrow> 1 / 10 < g \<and> g < 9))"

definition median_of :: "real list \<Rightarrow> real" where
  "median_of xs =
     (let s = sort xs; n = length s
      in if odd n then s ! (n div 2) else (s ! (n div 2 - 1) + s ! (n div 2)) / 2)"

text \<open>Sixty green laps with gaps spread evenly from 0.5 s upwards in steps of 1/30 s.\<close>

definition gap_lap :: "bool \<Rightarrow> bool \<Rightarrow> pyfloat \<Rightarrow> lap_row" where
  "gap_lap pit sc g = (raw_lap ''1'' 1 pit sc (Some 0))\<lparr> IntervalToAhead := g \<rparr>"

definition uniform_gap_laps :: "lap_row list" where
  "uniform_gap_laps = map (\<lambda>i. gap_lap False False (Some (1 / 2 + real i / 30))) [0..<60]"

text \<open>A green-flag lap of the ratio engine: driver, stint, lap time and benchmark.\<close>

definition rlap :: "string \<Rightarrow> real \<Rightarrow> real \<Rightarrow> real \<Rightarrow> ratio_lap" where
  "rlap d stint lap_time benchmark =
     \<lparr> ratio_lap.DriverNumber = d, Stint = Some stint, LapTimeSeconds = Some lap_time,
       BenchmarkTime = Some benchmark, LapTimeDelta = None \<rparr>"

text \<open>
  The mean and the standard deviation in the words of the specification, on numbers: the
  sum over the count, and the square root of the sum of the squared distances to the mean
  over the count less one.
\<close>

definition mean_of :: "real list \<Rightarrow> real" where
  "mean_of xs = sum_list xs / real (length xs)"

definition sample_stdev :: "real list \<Rightarrow> real" where
  "sample_stdev xs = sqrt (sum_list (map (\<lambda>x. (x - mean_of xs)\<^sup>2) xs) / real (length xs - 1))"

text \<open>
  Driver 1 in three stints against a benchmark of 90 s. Stint 1 has the deltas
  2, 4, 6, -8, -9 (mean -1; the three laps slower than the mean have the standard
  deviation 2); stint 2 has three equal deltas (no lap slower than the mean); stint 3 has
  the deltas 0, 0, 3 (one lap slower than the mean, so no standard deviation of the
  downside).
\<close>

definition segment_laps :: "ratio_lap list" where
  "segment_laps =
     [rlap ''1'' 1 92 90, rlap ''1'' 1 94 90, rlap ''1'' 1 96 90,
      rlap ''1'' 1 82 90, rlap ''1'' 1 81 90,
      rlap ''1'' 2 91 90, rlap ''1'' 2 91 90, rlap ''1'' 2 91 90,
      rlap ''1'' 3 90 90, rlap ''1'' 3 90 90, rlap ''1'' 3 93 90]"

text \<open>
  Driver 1 has two laps in each of two stints; driver 4 has three laps in one stint, with
  the deltas -1, 0, 1.
\<close>

definition thin_laps :: "ratio_lap list" where
  "thin_laps =
     [rlap ''1'' 1 91 90, rlap ''1'' 1 92 90, rlap ''1'' 2 91 90, rlap ''1'' 2 89 90,
      rlap ''4'' 1 89 90, rlap ''4'' 1 90 90, rlap ''4'' 1 91 90]"





section \<open>Theorems\<close>

lemma scan_step_stays:
  assumes "in_dd s" and "flt (Drawdown row) (Some (RECOVERY_COMPLETE_THRESHOLD cfg))"
  shows "in_dd (scan_step cfg polyfit d_df s row)"
proof (cases "flt (Drawdown row) (Some (DRAWDOWN_ENTRY_THRESHOLD cfg))")
  case True
  with assms(1) show ?thesis by (simp add: scan_step_def Let_def)
next
  case False
  from assms(2) have "\<not> fge (Drawdown row) (Some (RECOVERY_COMPLETE_THRESHOLD cfg))"
    by (cases "Drawdown row") auto
  with False assms(1) show ?thesis by (simp add: scan_step_def)
qed

lemma foldl_scan_step_stays:
  assumes "\<forall>row \<in> set mid. flt (Drawdown row) (Some (RECOVERY_COMPLETE_THRESHOLD cfg))"
    and "in_dd s"
  shows "in_dd (foldl (scan_step cfg polyfit d_df) s mid)"
  using assms
proof (induction mid arbitrary: s)
  case Nil
  then show ?case by simp
next
  case (Cons row mid)
  then show ?case by (simp add: scan_step_stays)
qed

text \<open>
  C4. Hysteresis of the single-pass drawdown detector. Once the scan over the laps
  \<open>pre\<close> has left the detector In-Drawdown, it is still In-Drawdown after any further
  laps \<open>mid\<close> whose drawdown values are all strictly below the exit threshold
  \<open>RECOVERY_COMPLETE_THRESHOLD\<close>, whether or not they are above the entry threshold.
  With \<open>mid\<close> a single lap this is: no exit at a lap whose drawdown is below the exit
  threshold. It holds for every setting of the two thresholds.
\<close>

theorem hysteresis_no_exit_below_band:
  assumes "in_dd (scan cfg polyfit d_df pre)"
    and "\<forall>row \<in> set mid. flt (Drawdown row) (Some (RECOVERY_COMPLETE_THRESHOLD cfg))"
  shows "in_dd (scan cfg polyfit d_df (pre @ mid))"
  using assms by (simp add: scan_def foldl_scan_step_stays)

theorem hysteresis_no_exit_below_band_witness:
  "in_dd (scan default_config no_fit (driver_frame band_laps ''VER'')
            (take 2 (driver_frame band_laps ''VER'')))
   \<and> flt (Drawdown (driver_frame band_laps ''VER'' ! 2))
          (Some (RECOVERY_COMPLETE_THRESHOLD default_config))
   \<and> \<not> flt (Drawdown (driver_frame band_laps ''VER'' ! 2))
            (Some (DRAWDOWN_ENTRY_THRESHOLD default_config))
   \<and> in_dd (scan default_config no_fit (driver_frame band_laps ''VER'')
              (take 2 (driver_frame band_laps ''VER'') @ drop 2 (driver_frame band_laps ''VER'')))"
proof -
  have a: "in_dd (scan default_config no_fit (driver_frame band_laps ''VER'')
                    (take 2 (driver_frame band_laps ''VER'')))"
    by (simp add: driver_frame_def band_laps_def lap_def with_drawdown_def cummax_def
        lap_row.extend_def scan_def scan_step_def scan_init_def default_config_def Let_def)
  have b: "\<forall>row \<in> set (drop 2 (driver_frame band_laps ''VER'')).
             flt (Drawdown row) (Some (RECOVERY_COMPLETE_THRESHOLD default_config))"
    by (simp add: driver_frame_def band_laps_def lap_def with_drawdown_def cummax_def
        lap_row.extend_def default_config_def)
  have c: "\<not> flt (Drawdown (driver_frame band_laps ''VER'' ! 2))
               (Some (DRAWDOWN_ENTRY_THRESHOLD default_config))"
    by (simp add: driver_frame_def band_laps_def lap_def with_drawdown_def cummax_def
        lap_row.extend_def default_config_def)
  have d: "flt (Drawdown (driver_frame band_laps ''VER'' ! 2))
             (Some (RECOVERY_COMPLETE_THRESHOLD default_config))"
    by (simp add: driver_frame_def band_laps_def lap_def with_drawdown_def cummax_def
        lap_row.extend_def default_config_def)
  from a c d hysteresis_no_exit_below_band [OF a b] show ?thesis by blast
qed

subsection \<open>Equity change of a single lap\<close>

lemma caution_lap_equity_zero:
  "IsSC row \<Longrightarrow> calculate_equity_change cfg avg_pit_loss row = Some 0"
  by (simp add: calculate_equity_change_def)

lemma equity_change_ignores_freeze_switch:
  "calculate_equity_change (cfg\<lparr> SC_EQUITY_FREEZE := b \<rparr>) avg_pit_loss row
   = calculate_equity_change cfg avg_pit_loss row"
  by (simp add: calculate_equity_change_def)

lemma green_lap_without_delta_equity_zero:
  "\<not> IsSC row \<Longrightarrow> \<not> IsPit row \<Longrightarrow> RawDelta row = None
   \<Longrightarrow> calculate_equity_change cfg avg_pit_loss row = Some 0"
  by (simp add: calculate_equity_change_def isna_def)

lemma pit_lap_without_delta_equity_nan:
  "\<not> IsSC row \<Longrightarrow> IsPit row \<Longrightarrow> RawDelta row = None
   \<Longrightarrow> calculate_equity_change cfg avg_pit_loss row = None"
  by (simp add: calculate_equity_change_def)

text \<open>
  C3. On a caution lap the equity change is 0.0 whatever the raw delta, the pit flag and
  the traffic flag are (\<open>caution_lap_equity_zero\<close>), but the freeze cannot be switched
  off: \<open>calculate_equity_change\<close> never reads \<open>SC_EQUITY_FREEZE\<close>. With the switch set
  to \<open>False\<close>, a caution lap that was one second slower than expected still gets the
  equity change 0.0, where the same lap under green gets -1.0.
\<close>

theorem freeze_switch_off_still_freezes:
  "calculate_equity_change (default_config\<lparr> SC_EQUITY_FREEZE := False \<rparr>) (Some 20)
     (raw_lap ''1'' 5 False True (Some 1)) = Some 0
   \<and> calculate_equity_change (default_config\<lparr> SC_EQUITY_FREEZE := False \<rparr>) (Some 20)
     (raw_lap ''1'' 5 False False (Some 1)) = Some (- 1)"
  by (simp add: calculate_equity_change_def raw_lap_def isna_def)

subsection \<open>A lap without a benchmark delta\<close>

lemma missing_pit_delta_avg_pit_loss:
  "avg_pit_loss_of missing_pit_delta_laps = Some 20"
  by (simp add: avg_pit_loss_of_def missing_pit_delta_laps_def raw_lap_def
      series_median_def series_quantile_def np_percentile_def)

lemma missing_pit_delta_threshold:
  "estimate_traffic_threshold_dynamically missing_pit_delta_laps = 13 / 10"
  by (simp add: estimate_traffic_threshold_dynamically_def valid_gaps_def
      missing_pit_delta_laps_def raw_lap_def)

lemma missing_pit_delta_equity:
  "map_option (map (\<lambda>r. (lap_row.Driver r, LapNumber r, EquityChange r, ExecutionEquity r)))
     (calculate_execution_equity default_config two_drivers missing_pit_delta_laps)
   = Some [(''VER'', 1, Some (- 1), Some (- 1)), (''VER'', 2, None, None),
           (''VER'', 3, Some (- 1), Some (- 2)), (''NOR'', 1, Some 0, Some 0)]"
  by (simp add: calculate_execution_equity_def attributed_laps_def
        missing_pit_delta_avg_pit_loss missing_pit_delta_threshold Let_def)
     (simp add: missing_pit_delta_laps_def raw_lap_def calculate_equity_change_def isna_def
        two_drivers_def driver_curve_def cumsum_def shift1_def failure_type_def
        default_config_def)

lemma series_median_number:
  "Some x \<in> set xs \<Longrightarrow> series_median xs \<noteq> None"
proof -
  assume "Some x \<in> set xs"
  then have "dropna xs \<noteq> []" by (induction xs rule: dropna.induct) auto
  then show ?thesis
    by (cases "dropna xs") (simp_all add: series_median_def series_quantile_def)
qed

text \<open>
  The pit branch is the only source of a NaN equity change: in the table after step 6 a
  lap has the equity change NaN exactly when it is a green-flag pit lap without a raw delta.
\<close>

lemma equity_change_nan_iff:
  assumes "r \<in> set (attributed_laps cfg all_laps)"
  shows "EquityChange r = None \<longleftrightarrow> IsPit r \<and> \<not> IsSC r \<and> RawDelta r = None"
proof -
  define apl where "apl = avg_pit_loss_of all_laps"
  from assms obtain r0 where r0: "r0 \<in> set all_laps"
    and flags: "IsPit r = IsPit r0" "IsSC r = IsSC r0" "RawDelta r = RawDelta r0"
    and chg: "EquityChange r
              = calculate_equity_change cfg apl
                  (r0\<lparr> InTraffic := flt (IntervalToAhead r0)
                                         (Some (estimate_traffic_threshold_dynamically all_laps)),
                         UnderPressure := flt (IntervalToBehind r0)
                                            (Some (UNDER_PRESSURE_THRESHOLD_SECONDS cfg)) \<rparr>)"
    by (auto simp: attributed_laps_def Let_def apl_def)
  have apl: "IsPit r0 \<Longrightarrow> \<not> IsSC r0 \<Longrightarrow> RawDelta r0 \<noteq> None \<Longrightarrow> apl \<noteq> None"
  proof -
    assume pit: "IsPit r0" "\<not> IsSC r0" and "RawDelta r0 \<noteq> None"
    then obtain x where x: "RawDelta r0 = Some x" by auto
    from r0 pit have mem: "r0 \<in> set (filter (\<lambda>r. IsPit r \<and> \<not> IsSC r) all_laps)" by simp
    then have "Some x \<in> set (map RawDelta (filter (\<lambda>r. IsPit r \<and> \<not> IsSC r) all_laps))"
      using x by force
    then have "series_median (map RawDelta (filter (\<lambda>r. IsPit r \<and> \<not> IsSC r) all_laps)) \<noteq> None"
      by (rule series_median_number)
    with mem show "apl \<noteq> None"
      by (auto simp: apl_def avg_pit_loss_of_def Let_def)
  qed
  show ?thesis
  proof (cases "IsPit r0 \<and> \<not> IsSC r0")
    case False
    then show ?thesis
      unfolding chg flags
      by (cases "RawDelta r0") (auto simp: calculate_equity_change_def isna_def)
  next
    case True
    show ?thesis
    proof (cases "RawDelta r0")
      case None
      with True show ?thesis
        unfolding chg flags by (simp add: calculate_equity_change_def)
    next
      case (Some x)
      with True apl obtain a where "apl = Some a" by auto
      with True Some show ?thesis
        unfolding chg flags by (simp add: calculate_equity_change_def)
    qed
  qed
qed

text \<open>
  C8. A green-flag lap without a raw delta gets the equity change 0.0 when it is not a
  pit lap (\<open>green_lap_without_delta_equity_zero\<close>: the branch tests \<open>pd.isna\<close>), but
  NaN when it is a pit lap (\<open>pit_lap_without_delta_equity_nan\<close>: the pit branch
  subtracts the average pit loss from the missing delta without the test). In the race
  of \<open>missing_pit_delta_laps\<close> the equity pipeline returns a table, and in it the pit
  lap 2 of VER has the equity change NaN and the cumulative equity NaN; the running sum
  skips it, so lap 3 is a number again.
\<close>

theorem pit_lap_without_delta_is_nan:
  "map_option (map (\<lambda>r. (lap_row.Driver r, LapNumber r, EquityChange r, ExecutionEquity r)))
     (calculate_execution_equity default_config two_drivers missing_pit_delta_laps)
   = Some [(''VER'', 1, Some (- 1), Some (- 1)), (''VER'', 2, NaN, NaN),
           (''VER'', 3, Some (- 1), Some (- 2)), (''NOR'', 1, Some 0, Some 0)]"
  by (simp add: missing_pit_delta_equity NaN_def)

subsection \<open>Per-category resilience\<close>

lemma scan_step_lengths:
  assumes "length (recovery_velocities s) = length (recovery_types s)"
  shows "length (recovery_velocities (scan_step cfg polyfit d_df s row))
         = length (recovery_types (scan_step cfg polyfit d_df s row))"
  using assms by (simp add: scan_step_def Let_def)

lemma foldl_scan_lengths:
  assumes "length (recovery_velocities s) = length (recovery_types s)"
  shows "length (recovery_velocities (foldl (scan_step cfg polyfit d_df) s rows))
         = length (recovery_types (foldl (scan_step cfg polyfit d_df) s rows))"
  using assms
proof (induction rows arbitrary: s)
  case Nil
  then show ?case by simp
next
  case (Cons row rows)
  from Cons.prems
  have "length (recovery_velocities (scan_step cfg polyfit d_df s row))
        = length (recovery_types (scan_step cfg polyfit d_df s row))"
    by (rule scan_step_lengths)
  then show ?case using Cons.IH by simp
qed

lemma scan_lengths:
  "length (recovery_velocities (scan cfg polyfit d_df rows))
   = length (recovery_types (scan cfg polyfit d_df rows))"
  unfolding scan_def by (rule foldl_scan_lengths) (simp add: scan_init_def)

lemma relevant_rates_Nil_iff:
  assumes "length velocities = length types"
  shows "relevant_rates velocities types r_type = [] \<longleftrightarrow> r_type \<notin> set types"
  using assms
  by (induction velocities types rule: list_induct2) (auto simp: relevant_rates_def)

lemma with_drawdown_defined:
  assumes "row \<in> set (with_drawdown rows)" and "Drawdown row \<noteq> None"
  shows "ExecutionEquity row \<noteq> None"
proof -
  from assms(1) obtain r p
    where row: "row = lap_row.extend r \<lparr> Peak = p, Drawdown = fsub (ExecutionEquity r) p \<rparr>"
    by (auto simp: with_drawdown_def)
  then have ee: "ExecutionEquity row = ExecutionEquity r"
    and dd: "Drawdown row = fsub (ExecutionEquity r) p"
    by (simp_all add: lap_row.extend_def)
  show ?thesis
  proof
    assume "ExecutionEquity row = None"
    with ee dd have "Drawdown row = None" by simp
    with assms(2) show False by simp
  qed
qed

text \<open>
  Every recorded recovery velocity is a number: an episode is entered and left only at
  laps whose drawdown, hence whose equity, is a number, so the trough equity is one too.
\<close>

lemma scan_step_numbers:
  assumes "trough_equity s \<noteq> None" and "None \<notin> set (recovery_velocities s)"
    and "Drawdown row \<noteq> None \<longrightarrow> ExecutionEquity row \<noteq> None"
  shows "trough_equity (scan_step cfg polyfit d_df s row) \<noteq> None
       \<and> None \<notin> set (recovery_velocities (scan_step cfg polyfit d_df s row))"
proof (cases "Drawdown row")
  case None
  with assms(1,2) show ?thesis by (simp add: scan_step_def)
next
  case (Some d)
  with assms(3) obtain e where e: "ExecutionEquity row = Some e" by auto
  from assms(1) obtain t where t: "trough_equity s = Some t" by auto
  from Some e t assms(2) show ?thesis by (simp add: scan_step_def Let_def)
qed

lemma foldl_scan_numbers:
  assumes "\<forall>row \<in> set rows. Drawdown row \<noteq> None \<longrightarrow> ExecutionEquity row \<noteq> None"
    and "trough_equity s \<noteq> None" and "None \<notin> set (recovery_velocities s)"
  shows "None \<notin> set (recovery_velocities (foldl (scan_step cfg polyfit d_df) s rows))"
  using assms
proof (induction rows arbitrary: s)
  case Nil
  then show ?case by simp
next
  case (Cons row rows)
  from Cons.prems have "Drawdown row \<noteq> None \<longrightarrow> ExecutionEquity row \<noteq> None" by simp
  with Cons.prems(2,3)
  have "trough_equity (scan_step cfg polyfit d_df s row) \<noteq> None
        \<and> None \<notin> set (recovery_velocities (scan_step cfg polyfit d_df s row))"
    by (rule scan_step_numbers)
  moreover from Cons.prems(1)
  have "\<forall>row \<in> set rows. Drawdown row \<noteq> None \<longrightarrow> ExecutionEquity row \<noteq> None" by simp
  ultimately show ?case using Cons.IH by simp
qed

lemma scan_velocities_numbers:
  "None \<notin> set (recovery_velocities
                  (scan cfg polyfit d_df (driver_frame equity_df driver)))"
  unfolding scan_def
proof (rule foldl_scan_numbers)
  show "\<forall>row \<in> set (driver_frame equity_df driver).
          Drawdown row \<noteq> None \<longrightarrow> ExecutionEquity row \<noteq> None"
    unfolding driver_frame_def using with_drawdown_defined by blast
qed (simp_all add: scan_init_def)

lemma np_mean_number:
  "xs \<noteq> [] \<Longrightarrow> None \<notin> set xs \<Longrightarrow> np_mean xs \<noteq> None"
  by (simp add: np_mean_def)

lemma set_relevant_rates:
  "set (relevant_rates velocities types r_type) \<subseteq> set velocities"
  by (auto simp: relevant_rates_def dest: set_zip_leftD)

lemma episode_scan_VER:
  "recovery_velocities (scan default_config no_fit (driver_frame episode_laps ''VER'')
                          (driver_frame episode_laps ''VER'')) = [Some (3 / 2)]
   \<and> recovery_types (scan default_config no_fit (driver_frame episode_laps ''VER'')
                       (driver_frame episode_laps ''VER'')) = [''Major Incident'']"
  by (simp add: driver_frame_def episode_laps_def lap_def with_drawdown_def cummax_def
      lap_row.extend_def scan_def scan_step_def scan_init_def default_config_def Let_def)

lemma episode_scan_NOR:
  "recovery_velocities (scan default_config no_fit (driver_frame episode_laps ''NOR'')
                          (driver_frame episode_laps ''NOR'')) = [Some (1 / 2), Some 2]
   \<and> recovery_types (scan default_config no_fit (driver_frame episode_laps ''NOR'')
                       (driver_frame episode_laps ''NOR'')) = [''Traffic'', ''Operational'']"
  by (simp add: driver_frame_def episode_laps_def lap_def with_drawdown_def cummax_def
      lap_row.extend_def scan_def scan_step_def scan_init_def default_config_def Let_def)

lemma episode_scan_HAM:
  "recovery_velocities (scan default_config no_fit (driver_frame episode_laps ''HAM'')
                          (driver_frame episode_laps ''HAM'')) = []
   \<and> recovery_types (scan default_config no_fit (driver_frame episode_laps ''HAM'')
                       (driver_frame episode_laps ''HAM'')) = []"
  by (simp add: driver_frame_def episode_laps_def lap_def with_drawdown_def cummax_def
      lap_row.extend_def scan_def scan_step_def scan_init_def default_config_def Let_def)

text \<open>
  C1, as the code has it. With \<open>s\<close> the state of the episode scan at the end of a
  driver's laps and \<open>m\<close> the driver's row of the summary: Major Incident Resilience and
  Operational Resilience are NaN when no finalized episode has that type and the mean
  recovery velocity of the episodes of that type otherwise. Traffic Resilience is the mean
  recovery velocity of the traffic episodes when there is one; when there is none it is
  the mean recovery velocity of all finalized episodes of the driver, whatever their type,
  and NaN only when the driver has no finalized episode at all. Every recorded recovery
  velocity is a number, so each mean above is a number: a resilience is NaN in the cases
  named here and in no other.
\<close>

theorem per_category_resilience:
  fixes cfg :: config and polyfit :: polyfit2 and equity_df :: "lap_row list" and driver :: string
  defines "s \<equiv> scan cfg polyfit (driver_frame equity_df driver) (driver_frame equity_df driver)"
    and "m \<equiv> driver_metrics cfg polyfit equity_df driver"
  shows "(''Major Incident'' \<notin> set (recovery_types s) \<longrightarrow> Major_Incident_Resilience m = NaN)
    \<and> (''Major Incident'' \<in> set (recovery_types s) \<longrightarrow>
         Major_Incident_Resilience m
           = np_mean (relevant_rates (recovery_velocities s) (recovery_types s) ''Major Incident''))
    \<and> (''Operational'' \<notin> set (recovery_types s) \<longrightarrow> Operational_Resilience m = NaN)
    \<and> (''Operational'' \<in> set (recovery_types s) \<longrightarrow>
         Operational_Resilience m
           = np_mean (relevant_rates (recovery_velocities s) (recovery_types s) ''Operational''))
    \<and> (''Traffic'' \<in> set (recovery_types s) \<longrightarrow>
         Traffic_Resilience m
           = np_mean (relevant_rates (recovery_velocities s) (recovery_types s) ''Traffic''))
    \<and> (''Traffic'' \<notin> set (recovery_types s) \<and> recovery_types s \<noteq> [] \<longrightarrow>
         Traffic_Resilience m = np_mean (recovery_velocities s))
    \<and> (recovery_types s = [] \<longrightarrow> Traffic_Resilience m = NaN)
    \<and> None \<notin> set (recovery_velocities s)
    \<and> (Major_Incident_Resilience m = NaN \<longrightarrow> ''Major Incident'' \<notin> set (recovery_types s))
    \<and> (Operational_Resilience m = NaN \<longrightarrow> ''Operational'' \<notin> set (recovery_types s))
    \<and> (Traffic_Resilience m = NaN \<longrightarrow> recovery_types s = [])"
proof -
  have len: "length (recovery_velocities s) = length (recovery_types s)"
    unfolding s_def by (rule scan_lengths)
  have num: "None \<notin> set (recovery_velocities s)"
    unfolding s_def by (rule scan_velocities_numbers)
  have rel: "\<And>r. relevant_rates (recovery_velocities s) (recovery_types s) r \<noteq> []
                 \<Longrightarrow> np_mean (relevant_rates (recovery_velocities s) (recovery_types s) r) \<noteq> None"
  proof (rule np_mean_number)
    fix r
    show "None \<notin> set (relevant_rates (recovery_velocities s) (recovery_types s) r)"
      using num set_relevant_rates [of "recovery_velocities s" "recovery_types s" r] by blast
  qed
  have all: "recovery_velocities s \<noteq> [] \<Longrightarrow> np_mean (recovery_velocities s) \<noteq> None"
    using num by (rule np_mean_number [rotated])
  have nil: "\<And>r. relevant_rates (recovery_velocities s) (recovery_types s) r = []
                 \<longleftrightarrow> r \<notin> set (recovery_types s)"
    using len by (rule relevant_rates_Nil_iff)
  have vnil: "recovery_velocities s = [] \<longleftrightarrow> recovery_types s = []"
    using len by auto
  have mir: "Major_Incident_Resilience m
             = type_resilience (recovery_velocities s) (recovery_types s) ''Major Incident''"
    by (simp add: m_def s_def driver_metrics_def Let_def)
  have opr: "Operational_Resilience m
             = type_resilience (recovery_velocities s) (recovery_types s) ''Operational''"
    by (simp add: m_def s_def driver_metrics_def Let_def)
  have tr: "Traffic_Resilience m = traffic_resilience (recovery_velocities s) (recovery_types s)"
    by (simp add: m_def s_def driver_metrics_def Let_def)
  have old: "(''Major Incident'' \<notin> set (recovery_types s) \<longrightarrow> Major_Incident_Resilience m = NaN)
    \<and> (''Major Incident'' \<in> set (recovery_types s) \<longrightarrow>
         Major_Incident_Resilience m
           = np_mean (relevant_rates (recovery_velocities s) (recovery_types s) ''Major Incident''))
    \<and> (''Operational'' \<notin> set (recovery_types s) \<longrightarrow> Operational_Resilience m = NaN)
    \<and> (''Operational'' \<in> set (recovery_types s) \<longrightarrow>
         Operational_Resilience m
           = np_mean (relevant_rates (recovery_velocities s) (recovery_types s) ''Operational''))
    \<and> (''Traffic'' \<in> set (recovery_types s) \<longrightarrow>
         Traffic_Resilience m
           = np_mean (relevant_rates (recovery_velocities s) (recovery_types s) ''Traffic''))
    \<and> (''Traffic'' \<notin> set (recovery_types s) \<and> recovery_types s \<noteq> [] \<longrightarrow>
         Traffic_Resilience m = np_mean (recovery_velocities s))
    \<and> (recovery_types s = [] \<longrightarrow> Traffic_Resilience m = NaN)"
    unfolding mir opr tr type_resilience_def traffic_resilience_def Let_def
    using nil vnil by auto
  have c1: "Major_Incident_Resilience m = NaN \<longrightarrow> ''Major Incident'' \<notin> set (recovery_types s)"
    unfolding mir type_resilience_def NaN_def
    using nil [of "''Major Incident''"] rel [of "''Major Incident''"] by auto
  have c2: "Operational_Resilience m = NaN \<longrightarrow> ''Operational'' \<notin> set (recovery_types s)"
    unfolding opr type_resilience_def NaN_def
    using nil [of "''Operational''"] rel [of "''Operational''"] by auto
  have c3: "Traffic_Resilience m = NaN \<longrightarrow> recovery_types s = []"
    unfolding tr traffic_resilience_def Let_def NaN_def
    using vnil rel [of "''Traffic''"] all by auto
  from old num c1 c2 c3 show ?thesis by blast
qed

theorem per_category_resilience_witness:
  "Major_Incident_Resilience (driver_metrics default_config no_fit episode_laps ''VER'') = Some (3 / 2)
   \<and> Operational_Resilience (driver_metrics default_config no_fit episode_laps ''VER'') = NaN
   \<and> Traffic_Resilience (driver_metrics default_config no_fit episode_laps ''VER'') = Some (3 / 2)
   \<and> Major_Incident_Resilience (driver_metrics default_config no_fit episode_laps ''NOR'') = NaN
   \<and> Operational_Resilience (driver_metrics default_config no_fit episode_laps ''NOR'') = Some 2
   \<and> Traffic_Resilience (driver_metrics default_config no_fit episode_laps ''NOR'') = Some (1 / 2)
   \<and> Major_Incident_Resilience (driver_metrics default_config no_fit episode_laps ''HAM'') = NaN
   \<and> Operational_Resilience (driver_metrics default_config no_fit episode_laps ''HAM'') = NaN
   \<and> Traffic_Resilience (driver_metrics default_config no_fit episode_laps ''HAM'') = NaN"
  using per_category_resilience [of default_config no_fit episode_laps "''VER''"]
        per_category_resilience [of default_config no_fit episode_laps "''NOR''"]
        per_category_resilience [of default_config no_fit episode_laps "''HAM''"]
  by (simp add: episode_scan_VER episode_scan_NOR episode_scan_HAM relevant_rates_def np_mean_def)

text \<open>
  The claim as written fails for Traffic Resilience: VER has no traffic episode, and the
  Traffic Resilience of VER is 1.5, the velocity of the major-incident episode.
\<close>

theorem traffic_resilience_backfilled:
  "''Traffic'' \<notin> set (recovery_types (scan default_config no_fit
                          (driver_frame episode_laps ''VER'') (driver_frame episode_laps ''VER'')))
   \<and> Traffic_Resilience (driver_metrics default_config no_fit episode_laps ''VER'') = Some (3 / 2)
   \<and> Traffic_Resilience (driver_metrics default_config no_fit episode_laps ''VER'') \<noteq> NaN"
  by (simp add: driver_metrics_def Let_def episode_scan_VER traffic_resilience_def
      relevant_rates_def np_mean_def NaN_def)

subsection \<open>Drawdown values\<close>

lemma cummax_from_ge:
  "(Some x, p) \<in> set (zip xs (cummax_from m xs)) \<Longrightarrow> \<exists>q. p = Some q \<and> x \<le> q"
proof (induction xs arbitrary: m)
  case Nil
  then show ?case by simp
next
  case (Cons a xs)
  show ?case
  proof (cases a)
    case None
    with Cons.prems have "(Some x, p) \<in> set (zip xs (cummax_from m xs))" by simp
    then show ?thesis by (rule Cons.IH)
  next
    case (Some y)
    define m' where "m' = (case m of None \<Rightarrow> y | Some z \<Rightarrow> max z y)"
    have ge: "y \<le> m'" by (simp add: m'_def split: option.split)
    from Cons.prems Some
    have "(Some x, p) = (Some y, Some m') \<or> (Some x, p) \<in> set (zip xs (cummax_from (Some m') xs))"
      by (simp add: m'_def Let_def)
    then show ?thesis
    proof
      assume "(Some x, p) = (Some y, Some m')"
      with ge show ?thesis by simp
    next
      assume "(Some x, p) \<in> set (zip xs (cummax_from (Some m') xs))"
      then show ?thesis by (rule Cons.IH)
    qed
  qed
qed

lemma cummax_from_None:
  "(None, p) \<in> set (zip xs (cummax_from m xs)) \<Longrightarrow> p = None"
proof (induction xs arbitrary: m)
  case Nil
  then show ?case by simp
next
  case (Cons a xs)
  then show ?case by (cases a) (auto simp: Let_def)
qed

lemma with_drawdown_row:
  assumes "row \<in> set (with_drawdown rows)"
  shows "\<exists>p. (ExecutionEquity row, p) \<in> set (zip (map ExecutionEquity rows)
                                                  (cummax_from None (map ExecutionEquity rows)))
             \<and> Drawdown row = fsub (ExecutionEquity row) p"
proof -
  from assms obtain r p where rp: "(r, p) \<in> set (zip rows (cummax (map ExecutionEquity rows)))"
    and row: "row = lap_row.extend r \<lparr> Peak = p, Drawdown = fsub (ExecutionEquity r) p \<rparr>"
    by (auto simp: with_drawdown_def)
  from rp have "(ExecutionEquity r, p) \<in> set (zip (map ExecutionEquity rows)
                                                  (cummax_from None (map ExecutionEquity rows)))"
    by (auto simp: zip_map1 cummax_def)
  moreover from row have "ExecutionEquity row = ExecutionEquity r"
    and "Drawdown row = fsub (ExecutionEquity r) p"
    by (simp_all add: lap_row.extend_def)
  ultimately show ?thesis by auto
qed

lemma drawdown_of_row:
  assumes "row \<in> set (with_drawdown rows)"
  shows "(ExecutionEquity row \<noteq> None \<longrightarrow> (\<exists>d. Drawdown row = Some d \<and> d \<le> 0))
       \<and> (ExecutionEquity row = None \<longrightarrow> Drawdown row = None)"
proof -
  from with_drawdown_row [OF assms] obtain p
    where mem: "(ExecutionEquity row, p) \<in> set (zip (map ExecutionEquity rows)
                                                    (cummax_from None (map ExecutionEquity rows)))"
      and dd: "Drawdown row = fsub (ExecutionEquity row) p"
    by blast
  show ?thesis
  proof (cases "ExecutionEquity row")
    case None
    with dd show ?thesis by simp
  next
    case (Some e)
    with mem cummax_from_ge obtain q where "p = Some q" and "e \<le> q" by metis
    with Some dd show ?thesis by simp
  qed
qed

lemma set_dropna: "set (dropna xs) = {x. Some x \<in> set xs}"
proof (induction xs)
  case Nil
  then show ?case by simp
next
  case (Cons a xs)
  then show ?case by (cases a) auto
qed

lemma fold_min_le: "fold min ys (y::real) \<le> y"
proof (induction ys arbitrary: y)
  case Nil
  then show ?case by simp
next
  case (Cons a ys)
  have "fold min ys (min a y) \<le> min a y" by (rule Cons.IH)
  then show ?case by simp
qed

lemma series_min_nonpositive:
  assumes "\<forall>x. Some x \<in> set xs \<longrightarrow> x \<le> 0"
  shows "(\<exists>x. Some x \<in> set xs) \<longrightarrow> (\<exists>m. series_min xs = Some m \<and> m \<le> 0)"
    and "(\<forall>x. Some x \<notin> set xs) \<longrightarrow> series_min xs = None"
proof -
  show "(\<exists>x. Some x \<in> set xs) \<longrightarrow> (\<exists>m. series_min xs = Some m \<and> m \<le> 0)"
  proof
    assume "\<exists>x. Some x \<in> set xs"
    then have "set (dropna xs) \<noteq> {}" by (auto simp: set_dropna)
    then obtain y ys where yys: "dropna xs = y # ys" by (cases "dropna xs") auto
    then have "y \<in> set (dropna xs)" by simp
    with assms have "y \<le> 0" by (simp add: set_dropna)
    moreover have "fold min ys y \<le> y" by (rule fold_min_le)
    ultimately show "\<exists>m. series_min xs = Some m \<and> m \<le> 0"
      by (simp add: series_min_def yys)
  qed
  show "(\<forall>x. Some x \<notin> set xs) \<longrightarrow> series_min xs = None"
  proof
    assume "\<forall>x. Some x \<notin> set xs"
    then have "set (dropna xs) = {}" by (simp add: set_dropna)
    then show "series_min xs = None" by (simp add: series_min_def)
  qed
qed

text \<open>
  In the frame \<open>d_df\<close> of a driver, at every lap whose cumulative equity is a number
  the drawdown value is a number and is at most 0, and the max drawdown of the driver's
  summary row is a number at most 0 when some lap of the driver has such an equity. A lap
  whose cumulative equity is NaN has the drawdown NaN.
\<close>

lemma drawdown_nonpositive_where_defined:
  fixes cfg :: config and polyfit :: polyfit2 and equity_df :: "lap_row list" and driver :: string
  defines "d_df \<equiv> driver_frame equity_df driver"
    and "mdd \<equiv> Max_Drawdown (driver_metrics cfg polyfit equity_df driver)"
  shows "(\<forall>row \<in> set d_df.
            (ExecutionEquity row \<noteq> None \<longrightarrow> (\<exists>d. Drawdown row = Some d \<and> d \<le> 0))
          \<and> (ExecutionEquity row = None \<longrightarrow> Drawdown row = None))
       \<and> ((\<exists>row \<in> set d_df. ExecutionEquity row \<noteq> None) \<longrightarrow> (\<exists>m. mdd = Some m \<and> m \<le> 0))
       \<and> ((\<forall>row \<in> set d_df. ExecutionEquity row = None) \<longrightarrow> mdd = NaN)"
proof -
  have rows: "\<And>row. row \<in> set d_df \<Longrightarrow>
                (ExecutionEquity row \<noteq> None \<longrightarrow> (\<exists>d. Drawdown row = Some d \<and> d \<le> 0))
              \<and> (ExecutionEquity row = None \<longrightarrow> Drawdown row = None)"
    unfolding d_df_def driver_frame_def by (rule drawdown_of_row)
  have mdd: "mdd = series_min (map Drawdown d_df)"
    by (simp add: mdd_def d_df_def driver_metrics_def Let_def)
  have neg: "\<forall>x. Some x \<in> set (map Drawdown d_df) \<longrightarrow> x \<le> 0"
  proof (intro allI impI)
    fix x assume "Some x \<in> set (map Drawdown d_df)"
    then obtain row where "row \<in> set d_df" and "Drawdown row = Some x" by auto
    with rows [of row] show "x \<le> 0" by (cases "ExecutionEquity row") auto
  qed
  have some: "(\<exists>row \<in> set d_df. ExecutionEquity row \<noteq> None)
              \<longrightarrow> (\<exists>x. Some x \<in> set (map Drawdown d_df))"
  proof
    assume "\<exists>row \<in> set d_df. ExecutionEquity row \<noteq> None"
    then obtain row where r: "row \<in> set d_df" and "ExecutionEquity row \<noteq> None" by blast
    with rows [of row] obtain d where "Drawdown row = Some d" by blast
    with r have "Some d \<in> set (map Drawdown d_df)" by force
    then show "\<exists>x. Some x \<in> set (map Drawdown d_df)" ..
  qed
  have none: "(\<forall>row \<in> set d_df. ExecutionEquity row = None)
              \<longrightarrow> (\<forall>x. Some x \<notin> set (map Drawdown d_df))"
  proof (intro impI allI notI)
    fix x
    assume a: "\<forall>row \<in> set d_df. ExecutionEquity row = None"
      and "Some x \<in> set (map Drawdown d_df)"
    then obtain row where r: "row \<in> set d_df" and "Drawdown row = Some x" by auto
    with rows [of row] a show False by auto
  qed
  have p1: "\<forall>row \<in> set d_df.
              (ExecutionEquity row \<noteq> None \<longrightarrow> (\<exists>d. Drawdown row = Some d \<and> d \<le> 0))
            \<and> (ExecutionEquity row = None \<longrightarrow> Drawdown row = None)"
    using rows by (intro ballI)
  have p2: "(\<exists>row \<in> set d_df. ExecutionEquity row \<noteq> None) \<longrightarrow> (\<exists>m. mdd = Some m \<and> m \<le> 0)"
    unfolding mdd using some series_min_nonpositive(1) [OF neg] by (intro impI) (elim impE, assumption+)
  have p3: "(\<forall>row \<in> set d_df. ExecutionEquity row = None) \<longrightarrow> mdd = NaN"
    unfolding mdd NaN_def using none series_min_nonpositive(2) [OF neg]
    by (intro impI) (elim impE, assumption+)
  from p1 p2 p3 show ?thesis by (intro conjI)
qed

lemma episode_drawdowns:
  "map Drawdown (driver_frame episode_laps ''VER'') = [Some 0, Some (- 3), Some (- 1), Some 0]
   \<and> Max_Drawdown (driver_metrics default_config no_fit episode_laps ''VER'') = Some (- 3)"
  by (simp add: driver_metrics_def Let_def series_min_def)
     (simp add: driver_frame_def episode_laps_def lap_def with_drawdown_def cummax_def
        lap_row.extend_def)

text \<open>
  C5. The drawdown value is at most 0 wherever the cumulative equity is a number
  (\<open>drawdown_nonpositive_where_defined\<close>), but the equity table can hold a NaN: in the
  race of \<open>missing_pit_delta_laps\<close> the pit lap 2 of VER has no raw delta, its equity
  change and cumulative equity are NaN (the pit branch of \<open>calculate_equity_change\<close>
  has no test for a missing delta), and the detector computes for that lap the running
  peak NaN and the drawdown value NaN, which is not at most 0.
\<close>

theorem drawdown_nan_at_pit_lap_without_delta:
  "map_option
     (\<lambda>tbl. map (\<lambda>r. (LapNumber r, ExecutionEquity r, Peak r, Drawdown r,
                         fle (Drawdown r) (Some 0)))
                (driver_frame tbl ''VER''))
     (calculate_execution_equity default_config two_drivers missing_pit_delta_laps)
   = Some [(1, Some (- 1), Some (- 1), Some 0, True),
           (2, NaN, NaN, NaN, False),
           (3, Some (- 2), Some (- 1), Some (- 1), True)]"
  by (simp add: calculate_execution_equity_def attributed_laps_def
        missing_pit_delta_avg_pit_loss missing_pit_delta_threshold Let_def)
     (simp add: missing_pit_delta_laps_def raw_lap_def calculate_equity_change_def isna_def
        two_drivers_def driver_curve_def cumsum_def shift1_def failure_type_def
        default_config_def driver_frame_def with_drawdown_def cummax_def lap_row.extend_def
        NaN_def Let_def)

subsection \<open>Cumulative equity\<close>

lemma length_cumsum_from: "length (cumsum_from acc xs) = length xs"
  by (induction acc xs rule: cumsum_from.induct) simp_all

lemma dropna_append: "dropna (xs @ ys) = dropna xs @ dropna ys"
proof (induction xs)
  case Nil
  then show ?case by simp
next
  case (Cons a xs)
  then show ?case by (cases a) simp_all
qed

lemma cumsum_from_nth:
  assumes "None \<notin> set xs" and "n < length xs"
  shows "cumsum_from acc xs ! n = Some (acc + sum_list (dropna (take (Suc n) xs)))"
  using assms
proof (induction xs arbitrary: acc n)
  case Nil
  then show ?case by simp
next
  case (Cons a xs)
  from Cons.prems(1) obtain x where a: "a = Some x" and rest: "None \<notin> set xs"
    by (cases a) auto
  show ?case
  proof (cases n)
    case 0
    with a show ?thesis by simp
  next
    case (Suc k)
    with Cons.prems(2) have "k < length xs" by simp
    with rest have "cumsum_from (acc + x) xs ! k
                    = Some (acc + x + sum_list (dropna (take (Suc k) xs)))"
      by (rule Cons.IH)
    with a Suc show ?thesis by (simp add: add.assoc)
  qed
qed

lemma cumsum_from_step:
  assumes "None \<notin> set xs" and "0 < n" and "n < length xs"
  shows "cumsum_from acc xs ! n = fadd (cumsum_from acc xs ! (n - 1)) (xs ! n)"
proof -
  from assms obtain k where n: "n = Suc k" by (cases n) auto
  with assms have k: "k < length xs" by simp
  from assms(1,3) obtain c where c: "xs ! n = Some c"
    by (cases "xs ! n") (auto simp: in_set_conv_nth)
  have "take (Suc n) xs = take n xs @ [xs ! n]"
    using assms(3) by (rule take_Suc_conv_app_nth)
  then have "sum_list (dropna (take (Suc n) xs)) = sum_list (dropna (take n xs)) + c"
    by (simp add: dropna_append c)
  moreover have "cumsum_from acc xs ! n = Some (acc + sum_list (dropna (take (Suc n) xs)))"
    using assms(1,3) by (rule cumsum_from_nth)
  moreover have "cumsum_from acc xs ! k = Some (acc + sum_list (dropna (take (Suc k) xs)))"
    using assms(1) k by (rule cumsum_from_nth)
  moreover from c n have "xs ! Suc k = Some c" by simp
  ultimately show ?thesis by (simp add: n add.assoc)
qed

text \<open>The columns of a driver's curve, read off the sorted laps of the driver.\<close>

lemma driver_curve_columns:
  fixes sess :: session and all_laps :: "lap_row list" and driver :: string
  defines "d_laps \<equiv> sort_key LapNumber (filter (\<lambda>r. DriverNumber r = driver) all_laps)"
  shows "map LapNumber (driver_curve sess all_laps driver) = map LapNumber d_laps"
    and "map EquityChange (driver_curve sess all_laps driver) = map EquityChange d_laps"
    and "map ExecutionEquity (driver_curve sess all_laps driver)
         = cumsum (map EquityChange d_laps)"
proof -
  define cum where "cum = cumsum (map EquityChange d_laps)"
  define sh where "sh = shift1 (map IsSC d_laps)"
  have l1: "length cum = length d_laps"
    by (simp add: cum_def cumsum_def length_cumsum_from)
  have l2: "length sh = length d_laps"
    by (simp add: sh_def shift1_def)
  have l3: "length (zip cum sh) = length d_laps"
    using l1 l2 by simp
  have curve: "driver_curve sess all_laps driver
               = map (\<lambda>(r, e, w). r\<lparr> ExecutionEquity := e,
                                        lap_row.Driver := get_driver sess driver,
                                        WasSC := w,
                                        RestartLap := (w \<and> \<not> IsSC r) \<rparr>)
                     (zip d_laps (zip cum sh))"
    by (simp add: driver_curve_def d_laps_def cum_def sh_def Let_def)
  have fst_zip: "map fst (zip d_laps (zip cum sh)) = d_laps"
    using l3 by (simp add: map_fst_zip)
  have snd_zip: "map snd (zip d_laps (zip cum sh)) = zip cum sh"
    using l3 by (simp add: map_snd_zip)
  have cum_zip: "map fst (zip cum sh) = cum"
    using l1 l2 by (simp add: map_fst_zip)
  have "map LapNumber (driver_curve sess all_laps driver)
        = map LapNumber (map fst (zip d_laps (zip cum sh)))"
    unfolding curve by (simp add: case_prod_beta)
  then show "map LapNumber (driver_curve sess all_laps driver) = map LapNumber d_laps"
    by (simp only: fst_zip)
  have "map EquityChange (driver_curve sess all_laps driver)
        = map EquityChange (map fst (zip d_laps (zip cum sh)))"
    unfolding curve by (simp add: case_prod_beta)
  then show "map EquityChange (driver_curve sess all_laps driver) = map EquityChange d_laps"
    by (simp only: fst_zip)
  have "map ExecutionEquity (driver_curve sess all_laps driver)
        = map fst (map snd (zip d_laps (zip cum sh)))"
    unfolding curve by (simp add: case_prod_beta)
  also have "\<dots> = cum"
    by (simp only: snd_zip cum_zip)
  finally show "map ExecutionEquity (driver_curve sess all_laps driver)
                = cumsum (map EquityChange d_laps)"
    by (simp only: cum_def)
qed

text \<open>
  \<open>driver_curve\<close> is the accumulator for one competitor; the table that
  \<open>calculate_execution_equity\<close> returns is the concatenation of these curves. For a
  competitor whose equity changes are all numbers, the curve is in lap-number order, the
  cumulative equity of the first lap is that lap's equity change, the cumulative equity of
  each later lap is the cumulative equity of the lap before plus the lap's own equity
  change, and the cumulative equity of the last lap is the sum of all the equity changes
  of the competitor.
\<close>

lemma running_sum_of_defined_changes:
  fixes sess :: session and all_laps :: "lap_row list" and driver :: string
  defines "out \<equiv> driver_curve sess all_laps driver"
  assumes "\<forall>r \<in> set all_laps. DriverNumber r = driver \<longrightarrow> EquityChange r \<noteq> None"
  shows "sorted (map LapNumber out)
       \<and> (out \<noteq> [] \<longrightarrow> ExecutionEquity (out ! 0) = EquityChange (out ! 0))
       \<and> (\<forall>n. 0 < n \<and> n < length out \<longrightarrow>
             ExecutionEquity (out ! n)
               = fadd (ExecutionEquity (out ! (n - 1))) (EquityChange (out ! n)))
       \<and> (out \<noteq> [] \<longrightarrow>
             ExecutionEquity (out ! (length out - 1))
               = Some (sum_list (dropna (map EquityChange out))))"
proof -
  define d_laps where "d_laps = sort_key LapNumber (filter (\<lambda>r. DriverNumber r = driver) all_laps)"
  define xs where "xs = map EquityChange d_laps"
  have laps: "map LapNumber out = map LapNumber d_laps"
    and chg: "map EquityChange out = xs"
    and cum: "map ExecutionEquity out = cumsum_from 0 xs"
    unfolding out_def d_laps_def xs_def cumsum_def [symmetric]
    by (rule driver_curve_columns)+
  have len: "length xs = length out"
    using chg by (metis length_map)
  have nth_chg: "\<And>n. n < length out \<Longrightarrow> EquityChange (out ! n) = xs ! n"
    using chg by (metis nth_map)
  have nth_cum: "\<And>n. n < length out \<Longrightarrow> ExecutionEquity (out ! n) = cumsum_from 0 xs ! n"
    using cum by (metis nth_map)
  have defined: "None \<notin> set xs"
  proof
    assume "None \<in> set xs"
    then obtain r where "r \<in> set d_laps" and "EquityChange r = None"
      by (auto simp: xs_def)
    then have "r \<in> set all_laps" and "DriverNumber r = driver" and "EquityChange r = None"
      by (auto simp: d_laps_def)
    with assms(2) show False by blast
  qed
  have p1: "sorted (map LapNumber out)"
    unfolding laps d_laps_def by (rule sorted_sort_key)
  have p2: "out \<noteq> [] \<longrightarrow> ExecutionEquity (out ! 0) = EquityChange (out ! 0)"
  proof
    assume "out \<noteq> []"
    then have pos: "0 < length out" by simp
    then have "0 < length xs" using len by simp
    with defined have "cumsum_from 0 xs ! 0 = Some (0 + sum_list (dropna (take (Suc 0) xs)))"
      by (rule cumsum_from_nth)
    moreover from pos len obtain x rest where "xs = x # rest" by (cases xs) auto
    moreover from this defined obtain c where "x = Some c" by (cases x) auto
    ultimately have "cumsum_from 0 xs ! 0 = xs ! 0" by simp
    with pos show "ExecutionEquity (out ! 0) = EquityChange (out ! 0)"
      by (simp add: nth_chg nth_cum)
  qed
  have p3: "\<forall>n. 0 < n \<and> n < length out \<longrightarrow>
              ExecutionEquity (out ! n)
                = fadd (ExecutionEquity (out ! (n - 1))) (EquityChange (out ! n))"
  proof (intro allI impI)
    fix n assume n: "0 < n \<and> n < length out"
    then have "n < length xs" and "n - 1 < length out" using len by linarith+
    with defined n have "cumsum_from 0 xs ! n = fadd (cumsum_from 0 xs ! (n - 1)) (xs ! n)"
      by (simp add: cumsum_from_step)
    with n \<open>n - 1 < length out\<close>
    show "ExecutionEquity (out ! n)
            = fadd (ExecutionEquity (out ! (n - 1))) (EquityChange (out ! n))"
      by (simp add: nth_chg nth_cum)
  qed
  have p4: "out \<noteq> [] \<longrightarrow>
              ExecutionEquity (out ! (length out - 1))
                = Some (sum_list (dropna (map EquityChange out)))"
  proof
    assume "out \<noteq> []"
    then have last: "length out - 1 < length out" by simp
    then have "length out - 1 < length xs" using len by simp
    with defined
    have "cumsum_from 0 xs ! (length out - 1)
          = Some (0 + sum_list (dropna (take (Suc (length out - 1)) xs)))"
      by (rule cumsum_from_nth)
    moreover from last len have "take (Suc (length out - 1)) xs = xs" by simp
    ultimately show "ExecutionEquity (out ! (length out - 1))
                     = Some (sum_list (dropna (map EquityChange out)))"
      using last by (simp add: nth_cum chg)
  qed
  from p1 p2 p3 p4 show ?thesis by (intro conjI)
qed

lemma running_sum_of_shuffled_laps:
  "map LapNumber (driver_curve two_drivers shuffled_laps ''1'') = [1, 2, 3]
   \<and> map EquityChange (driver_curve two_drivers shuffled_laps ''1'')
       = [Some 2, Some (- 1), Some (1 / 2)]
   \<and> map ExecutionEquity (driver_curve two_drivers shuffled_laps ''1'')
       = [Some 2, Some 1, Some (3 / 2)]
   \<and> ExecutionEquity (driver_curve two_drivers shuffled_laps ''1'' ! 2)
       = fadd (ExecutionEquity (driver_curve two_drivers shuffled_laps ''1'' ! (2 - 1)))
              (EquityChange (driver_curve two_drivers shuffled_laps ''1'' ! 2))"
proof -
  have h: "\<forall>r \<in> set shuffled_laps. DriverNumber r = ''1'' \<longrightarrow> EquityChange r \<noteq> None"
    by (simp add: shuffled_laps_def lap_def del: not_None_eq)
  have a: "map LapNumber (driver_curve two_drivers shuffled_laps ''1'') = [1, 2, 3]"
    and b: "map EquityChange (driver_curve two_drivers shuffled_laps ''1'')
            = [Some 2, Some (- 1), Some (1 / 2)]"
    and c: "map ExecutionEquity (driver_curve two_drivers shuffled_laps ''1'')
            = [Some 2, Some 1, Some (3 / 2)]"
    by (simp_all add: driver_curve_def shuffled_laps_def lap_def cumsum_def shift1_def Let_def)
  from a have "length (map LapNumber (driver_curve two_drivers shuffled_laps ''1'')) = 3"
    by simp
  then have len: "(0::nat) < 2 \<and> 2 < length (driver_curve two_drivers shuffled_laps ''1'')"
    by simp
  from running_sum_of_defined_changes [OF h, of two_drivers] len
  have d: "ExecutionEquity (driver_curve two_drivers shuffled_laps ''1'' ! 2)
           = fadd (ExecutionEquity (driver_curve two_drivers shuffled_laps ''1'' ! (2 - 1)))
                  (EquityChange (driver_curve two_drivers shuffled_laps ''1'' ! 2))"
    by blast
  from a b c d show ?thesis by (intro conjI)
qed

text \<open>
  C2. The running sum is as claimed for a competitor whose equity changes are all numbers
  (\<open>running_sum_of_defined_changes\<close>), and an equity change is NaN only at a green-flag
  pit lap without a raw delta (\<open>equity_change_nan_iff\<close>). In the race of
  \<open>missing_pit_delta_laps\<close> driver 1 has such a lap: the equity changes of the three
  laps are -1, NaN, -1 and the cumulative equities are -1, NaN, -2. At lap 3 the
  cumulative equity is -2, while the cumulative equity of lap 2 plus the change of lap 3 is
  NaN; the cumulative equity of lap 2 is not a number at all.
\<close>

theorem cumulative_equity_after_nan_lap:
  "map ExecutionEquity
     (driver_curve two_drivers (attributed_laps default_config missing_pit_delta_laps) ''1'')
     = [Some (- 1), NaN, Some (- 2)]
   \<and> map EquityChange
     (driver_curve two_drivers (attributed_laps default_config missing_pit_delta_laps) ''1'')
     = [Some (- 1), NaN, Some (- 1)]
   \<and> fadd NaN (Some (- 1)) = NaN
   \<and> Some (- 2) \<noteq> NaN"
  by (simp add: attributed_laps_def missing_pit_delta_avg_pit_loss missing_pit_delta_threshold
        Let_def)
     (simp add: missing_pit_delta_laps_def raw_lap_def calculate_equity_change_def isna_def
        driver_curve_def cumsum_def shift1_def NaN_def)

subsection \<open>Traffic threshold\<close>

lemma np_percentile_50:
  assumes "xs \<noteq> []"
  shows "np_percentile xs 50 = median_of xs"
proof -
  define s where "s = sort xs"
  define n where "n = length s"
  from assms have npos: "0 < n" by (simp add: n_def s_def)
  show ?thesis
  proof (cases "even n")
    case True
    then obtain k where k: "n = 2 * k" by (elim evenE)
    with npos have kpos: "0 < k" by simp
    have v: "(50::real) / 100 * real (n - 1) = real k - 1 / 2"
      using kpos by (simp add: k of_nat_diff field_simps)
    have fl: "\<lfloor>real k - 1 / 2\<rfloor> = int k - 1"
      by (simp add: floor_eq_iff)
    have lo: "nat \<lfloor>real k - 1 / 2\<rfloor> = k - 1"
      using kpos by (simp add: fl)
    have hi: "min (k - 1 + 1) (n - 1) = k"
      using kpos by (simp add: k)
    have g: "real k - 1 / 2 - real (k - 1) = 1 / 2"
      using kpos by (simp add: of_nat_diff)
    have "np_percentile xs 50 = s ! (k - 1) + (s ! k - s ! (k - 1)) * (1 / 2)"
      unfolding np_percentile_def Let_def s_def [symmetric] n_def [symmetric] v lo hi g ..
    moreover have "median_of xs = (s ! (k - 1) + s ! k) / 2"
      unfolding median_of_def Let_def s_def [symmetric] n_def [symmetric]
      by (simp add: k)
    ultimately show ?thesis by (simp add: field_simps)
  next
    case False
    then obtain k where k: "n = 2 * k + 1" by (elim oddE)
    have v: "(50::real) / 100 * real (n - 1) = real k"
      by (simp add: k)
    have lo: "nat \<lfloor>real k\<rfloor> = k" by simp
    have "np_percentile xs 50 = s ! k + (s ! min (k + 1) (n - 1) - s ! k) * (real k - real k)"
      unfolding np_percentile_def Let_def s_def [symmetric] n_def [symmetric] v lo ..
    moreover have "median_of xs = s ! k"
      unfolding median_of_def Let_def s_def [symmetric] n_def [symmetric]
      by (simp add: k)
    ultimately show ?thesis by simp
  qed
qed

lemma valid_gaps_spec:
  "valid_gaps all_laps = map (\<lambda>r. the (IntervalToAhead r)) (filter valid_gap_lap all_laps)"
proof (induction all_laps)
  case Nil
  then show ?case by (simp add: valid_gaps_def)
next
  case (Cons r rs)
  then show ?case
    by (cases "IntervalToAhead r") (auto simp: valid_gaps_def valid_gap_lap_def)
qed

lemma uniform_valid_gaps:
  "valid_gaps (take k uniform_gap_laps) = map (\<lambda>i. 1 / 2 + real i / 30) (take k [0..<60])"
proof -
  have "filter valid_gap_lap (take k uniform_gap_laps) = take k uniform_gap_laps"
    by (rule filter_True)
       (auto simp: uniform_gap_laps_def valid_gap_lap_def gap_lap_def raw_lap_def
             dest!: in_set_takeD)
  then show ?thesis
    by (simp add: valid_gaps_spec uniform_gap_laps_def gap_lap_def raw_lap_def take_map o_def)
qed

lemma uniform_sorted: "sorted (map (\<lambda>i. 1 / 2 + real i / 30) [0..<60])"
proof -
  have "sorted_wrt (\<lambda>x y. x \<le> y) [0..<60]" by simp
  then have "sorted_wrt (\<lambda>x y. (1::real) / 2 + real x / 30 \<le> 1 / 2 + real y / 30) [0..<60]"
    by (rule sorted_wrt_mono_rel [rotated]) (simp add: divide_right_mono)
  then show ?thesis by (simp only: sorted_map)
qed

lemma uniform_median: "median_of (map (\<lambda>i. 1 / 2 + real i / 30) [0..<60]) = 89 / 60"
proof -
  have "sort (map (\<lambda>i. (1::real) / 2 + real i / 30) [0..<60])
        = map (\<lambda>i. 1 / 2 + real i / 30) [0..<60]"
    using uniform_sorted by (rule sorted_sort_id)
  then show ?thesis by (simp add: median_of_def)
qed

text \<open>
  C6. The valid gap samples are the gaps to the car ahead of the laps that are neither pit
  nor caution laps and have a gap strictly between 0.1 s and 9.0 s. With at least 50 of
  them the calibration returns their median, the 50th percentile, moved to 0.8 s when it
  is below and to 3.0 s when it is above, so a value within [0.8, 3.0]; with fewer than 50
  it returns 1.3 s.
\<close>

theorem traffic_threshold_calibration:
  "valid_gaps all_laps = map (\<lambda>r. the (IntervalToAhead r)) (filter valid_gap_lap all_laps)
   \<and> (50 \<le> length (valid_gaps all_laps) \<longrightarrow>
        estimate_traffic_threshold_dynamically all_laps
          = (if median_of (valid_gaps all_laps) < 8 / 10 then 8 / 10
             else if 3 < median_of (valid_gaps all_laps) then 3
             else median_of (valid_gaps all_laps))
        \<and> 8 / 10 \<le> estimate_traffic_threshold_dynamically all_laps
        \<and> estimate_traffic_threshold_dynamically all_laps \<le> 3)
   \<and> (length (valid_gaps all_laps) < 50 \<longrightarrow>
        estimate_traffic_threshold_dynamically all_laps = 13 / 10)"
proof (intro conjI impI)
  show "valid_gaps all_laps = map (\<lambda>r. the (IntervalToAhead r)) (filter valid_gap_lap all_laps)"
    by (rule valid_gaps_spec)
next
  assume "length (valid_gaps all_laps) < 50"
  then show "estimate_traffic_threshold_dynamically all_laps = 13 / 10"
    by (simp add: estimate_traffic_threshold_dynamically_def)
next
  assume n: "50 \<le> length (valid_gaps all_laps)"
  then have "valid_gaps all_laps \<noteq> []" by auto
  then have m: "np_percentile (valid_gaps all_laps) 50 = median_of (valid_gaps all_laps)"
    by (rule np_percentile_50)
  from n have e: "estimate_traffic_threshold_dynamically all_laps
                  = np_clip (median_of (valid_gaps all_laps)) (8 / 10) 3"
    by (simp add: estimate_traffic_threshold_dynamically_def m)
  show "estimate_traffic_threshold_dynamically all_laps
          = (if median_of (valid_gaps all_laps) < 8 / 10 then 8 / 10
             else if 3 < median_of (valid_gaps all_laps) then 3
             else median_of (valid_gaps all_laps))"
    unfolding e np_clip_def by auto
  show "8 / 10 \<le> estimate_traffic_threshold_dynamically all_laps"
    unfolding e np_clip_def by auto
  show "estimate_traffic_threshold_dynamically all_laps \<le> 3"
    unfolding e np_clip_def by auto
qed

theorem traffic_threshold_calibration_witness:
  "length (valid_gaps uniform_gap_laps) = 60
   \<and> estimate_traffic_threshold_dynamically uniform_gap_laps = 89 / 60
   \<and> length (valid_gaps (take 49 uniform_gap_laps)) = 49
   \<and> estimate_traffic_threshold_dynamically (take 49 uniform_gap_laps) = 13 / 10"
proof -
  have g: "valid_gaps uniform_gap_laps = map (\<lambda>i. 1 / 2 + real i / 30) [0..<60]"
    using uniform_valid_gaps [of 60] by (simp add: uniform_gap_laps_def)
  have a: "length (valid_gaps uniform_gap_laps) = 60"
    by (simp add: g)
  have b: "length (valid_gaps (take 49 uniform_gap_laps)) = 49"
    by (simp add: uniform_valid_gaps)
  from a traffic_threshold_calibration [of uniform_gap_laps]
  have c: "estimate_traffic_threshold_dynamically uniform_gap_laps = 89 / 60"
    by (simp add: g uniform_median)
  from b traffic_threshold_calibration [of "take 49 uniform_gap_laps"]
  have d: "estimate_traffic_threshold_dynamically (take 49 uniform_gap_laps) = 13 / 10"
    by simp
  from a b c d show ?thesis by (intro conjI)
qed

subsection \<open>Ratio engine\<close>

lemma dropna_map_Some: "dropna (map Some xs) = xs"
  by (induction xs) simp_all

lemma series_mean_numbers:
  assumes "ds \<noteq> []"
  shows "series_mean (map Some ds) = Some (mean_of ds)"
proof -
  from assms obtain y ys where "ds = y # ys" by (cases ds) auto
  then show ?thesis
    using dropna_map_Some [of ds] by (simp add: series_mean_def mean_of_def)
qed

lemma series_std_numbers:
  "series_std (map Some ys) = (if length ys < 2 then None else Some (sample_stdev ys))"
  by (simp add: series_std_def dropna_map_Some Let_def sample_stdev_def mean_of_def)

lemma downside_numbers:
  assumes "ds \<noteq> []"
  shows "downside_deltas (map Some ds) = map Some (filter (\<lambda>x. mean_of ds < x) ds)"
  by (simp add: downside_deltas_def series_mean_numbers [OF assms] filter_map o_def)

text \<open>The Sortino ratio of a stint whose deltas are numbers, in plain arithmetic.\<close>

lemma sortino_ratio_numbers:
  assumes "ds \<noteq> []"
  shows "sortino_ratio (map Some ds)
         = (if 2 \<le> length (filter (\<lambda>x. mean_of ds < x) ds)
               \<and> 1 / 1000000 < sample_stdev (filter (\<lambda>x. mean_of ds < x) ds)
            then Some (- mean_of ds / sample_stdev (filter (\<lambda>x. mean_of ds < x) ds))
            else Some 0)"
proof -
  define down where "down = filter (\<lambda>x. mean_of ds < x) ds"
  have "sortino_ratio (map Some ds)
        = (if map Some down \<noteq> []
           then (if fgt (series_std (map Some down)) (Some (1 / 1000000))
                 then fquot (fneg (Some (mean_of ds))) (series_std (map Some down))
                 else Some 0)
           else Some 0)"
    by (simp add: sortino_ratio_def Let_def downside_numbers [OF assms]
        series_mean_numbers [OF assms] down_def)
  also have "\<dots> = (if 2 \<le> length down \<and> 1 / 1000000 < sample_stdev down
                     then Some (- mean_of ds / sample_stdev down) else Some 0)"
    by (cases "length down < 2") (auto simp: series_std_numbers)
  finally show ?thesis by (simp only: down_def)
qed

lemma with_delta_numbers:
  "r \<in> set (with_delta laps) \<Longrightarrow> LapTimeDelta r \<noteq> None"
  by (auto simp: with_delta_def isna_def)

lemma map_Some_the:
  "\<forall>x \<in> set xs. f x \<noteq> None \<Longrightarrow> map Some (map (\<lambda>x. the (f x)) xs) = map f xs"
  by (induction xs) auto

text \<open>
  C7. Take a driver, the driver's laps after the laps without a delta have been dropped,
  and a stint of the driver with at least 3 such laps; let \<open>ds\<close> be the deltas of the
  stint, which are all numbers, and \<open>down\<close> the deltas strictly greater than the mean of
  \<open>ds\<close>. Both files give the stint the same Sortino ratio: 0 when \<open>down\<close> is empty;
  0 when \<open>down\<close> has one delta (its standard deviation is NaN, which is not greater than
  1e-6); 0 when the standard deviation of \<open>down\<close> is at most 1e-6; and otherwise minus
  the mean of \<open>ds\<close> over the standard deviation of \<open>down\<close>. Mean and standard deviation
  are the arithmetic ones, \<open>mean_of\<close> and \<open>sample_stdev\<close>.
\<close>

theorem sortino_of_segment:
  fixes laps :: "ratio_lap list" and d :: string and stint_number :: pyfloat
  defines "driver_laps \<equiv> filter (\<lambda>r. ratio_lap.DriverNumber r = d) (with_delta laps)"
  defines "ds \<equiv> map (\<lambda>r. the (LapTimeDelta r)) (stint_laps driver_laps stint_number)"
  defines "down \<equiv> filter (\<lambda>x. mean_of ds < x) ds"
  assumes "3 \<le> length (stint_laps driver_laps stint_number)"
  shows "map LapTimeDelta (stint_laps driver_laps stint_number) = map Some ds
       \<and> map_option st_sortino (sharpe_stint driver_laps stint_number)
           = map_option st_sortino (sortino_stint driver_laps stint_number)
       \<and> (down = [] \<longrightarrow>
            map_option st_sortino (sortino_stint driver_laps stint_number) = Some (Some 0))
       \<and> (length down = 1 \<longrightarrow>
            map_option st_sortino (sortino_stint driver_laps stint_number) = Some (Some 0))
       \<and> (2 \<le> length down \<and> sample_stdev down \<le> 1 / 1000000 \<longrightarrow>
            map_option st_sortino (sortino_stint driver_laps stint_number) = Some (Some 0))
       \<and> (2 \<le> length down \<and> 1 / 1000000 < sample_stdev down \<longrightarrow>
            map_option st_sortino (sortino_stint driver_laps stint_number)
              = Some (Some (- mean_of ds / sample_stdev down)))"
proof -
  from assms(4) have n: "\<not> length (stint_laps driver_laps stint_number) < 3" by simp
  have "\<forall>r \<in> set (stint_laps driver_laps stint_number). LapTimeDelta r \<noteq> None"
    using with_delta_numbers by (auto simp: stint_laps_def driver_laps_def)
  then have deltas: "map LapTimeDelta (stint_laps driver_laps stint_number) = map Some ds"
    unfolding ds_def by (rule map_Some_the [symmetric])
  from assms(4) have "ds \<noteq> []" by (auto simp: ds_def)
  then have r: "sortino_ratio (map Some ds)
                = (if 2 \<le> length down \<and> 1 / 1000000 < sample_stdev down
                   then Some (- mean_of ds / sample_stdev down) else Some 0)"
    unfolding down_def by (rule sortino_ratio_numbers)
  have a: "map_option st_sortino (sortino_stint driver_laps stint_number)
           = Some (sortino_ratio (map Some ds))"
    using n by (simp add: sortino_stint_def Let_def deltas)
  have b: "map_option st_sortino (sharpe_stint driver_laps stint_number)
           = Some (sortino_ratio (map Some ds))"
    using n by (simp add: sharpe_stint_def Let_def deltas)
  have p3: "down = [] \<longrightarrow>
              map_option st_sortino (sortino_stint driver_laps stint_number) = Some (Some 0)"
    unfolding a r by simp
  have p4: "length down = 1 \<longrightarrow>
              map_option st_sortino (sortino_stint driver_laps stint_number) = Some (Some 0)"
    unfolding a r by simp
  have p5: "2 \<le> length down \<and> sample_stdev down \<le> 1 / 1000000 \<longrightarrow>
              map_option st_sortino (sortino_stint driver_laps stint_number) = Some (Some 0)"
    unfolding a r by simp
  have p6: "2 \<le> length down \<and> 1 / 1000000 < sample_stdev down \<longrightarrow>
              map_option st_sortino (sortino_stint driver_laps stint_number)
                = Some (Some (- mean_of ds / sample_stdev down))"
    unfolding a r by simp
  have ab: "map_option st_sortino (sharpe_stint driver_laps stint_number)
            = map_option st_sortino (sortino_stint driver_laps stint_number)"
    by (simp only: a b)
  from deltas ab p3 p4 p5 p6 show ?thesis by (intro conjI)
qed

lemma segment_deltas:
  "map (\<lambda>r. the (LapTimeDelta r))
       (stint_laps (filter (\<lambda>r. ratio_lap.DriverNumber r = ''1'') (with_delta segment_laps)) (Some 1))
     = [2, 4, 6, - 8, - 9]
   \<and> map (\<lambda>r. the (LapTimeDelta r))
       (stint_laps (filter (\<lambda>r. ratio_lap.DriverNumber r = ''1'') (with_delta segment_laps)) (Some 2))
     = [1, 1, 1]
   \<and> map (\<lambda>r. the (LapTimeDelta r))
       (stint_laps (filter (\<lambda>r. ratio_lap.DriverNumber r = ''1'') (with_delta segment_laps)) (Some 3))
     = [0, 0, 3]"
  by (simp add: segment_laps_def with_delta_def rlap_def stint_laps_def isna_def)

lemma segment_stdev: "sample_stdev [2, 4, 6] = 2"
proof -
  have "sample_stdev [2, 4, 6] = sqrt 4"
    by (simp add: sample_stdev_def mean_of_def power2_eq_square)
  also have "\<dots> = 2" by simp
  finally show ?thesis .
qed

theorem sortino_of_segment_witness:
  "map_option st_sortino
     (sortino_stint (filter (\<lambda>r. ratio_lap.DriverNumber r = ''1'') (with_delta segment_laps)) (Some 1))
     = Some (Some (1 / 2))
   \<and> map_option st_sortino
     (sharpe_stint (filter (\<lambda>r. ratio_lap.DriverNumber r = ''1'') (with_delta segment_laps)) (Some 1))
     = Some (Some (1 / 2))
   \<and> map_option st_sortino
     (sortino_stint (filter (\<lambda>r. ratio_lap.DriverNumber r = ''1'') (with_delta segment_laps)) (Some 2))
     = Some (Some 0)
   \<and> map_option st_sortino
     (sortino_stint (filter (\<lambda>r. ratio_lap.DriverNumber r = ''1'') (with_delta segment_laps)) (Some 3))
     = Some (Some 0)"
proof -
  have l1: "3 \<le> length (stint_laps (filter (\<lambda>r. ratio_lap.DriverNumber r = ''1'')
                                        (with_delta segment_laps)) (Some 1))"
    and l2: "3 \<le> length (stint_laps (filter (\<lambda>r. ratio_lap.DriverNumber r = ''1'')
                                        (with_delta segment_laps)) (Some 2))"
    and l3: "3 \<le> length (stint_laps (filter (\<lambda>r. ratio_lap.DriverNumber r = ''1'')
                                        (with_delta segment_laps)) (Some 3))"
    by (simp_all add: segment_laps_def with_delta_def rlap_def stint_laps_def isna_def)
  have m1: "mean_of [2, 4, 6, - 8, - 9] = - 1" by (simp add: mean_of_def)
  have m2: "mean_of [1, 1, 1] = 1" by (simp add: mean_of_def)
  have m3: "mean_of [0, 0, 3] = 1" by (simp add: mean_of_def)
  from sortino_of_segment [OF l1] sortino_of_segment [OF l2] sortino_of_segment [OF l3]
  show ?thesis by (simp add: segment_deltas m1 m2 m3 segment_stdev)
qed

lemma map_filter_Nil:
  "\<forall>x \<in> set xs. f x = None \<Longrightarrow> List.map_filter f xs = []"
  by (induction xs) (simp_all add: map_filter_simps)

lemma map_filter_removeAll:
  "f d = None \<Longrightarrow> List.map_filter f (removeAll d xs) = List.map_filter f xs"
  by (induction xs) (auto simp: map_filter_simps split: option.split)

lemma set_unique: "set (unique xs) = set xs"
  by (simp add: unique_def)

lemma set_sort_values_desc: "set (sort_values_desc key rows) = set rows"
  by (auto simp: sort_values_desc_def)

lemma length_sort_values_desc: "length (sort_values_desc key rows) = length rows"
proof -
  have "length (filter (\<lambda>r. key r \<noteq> None) rows) + length (filter (\<lambda>r. key r = None) rows)
        = length rows"
    using sum_length_filter_compl [of "\<lambda>r. key r \<noteq> None" rows] by simp
  then show ?thesis by (simp add: sort_values_desc_def)
qed

lemma sharpe_driver_session:
  "sharpe_driver (sess\<lparr> drivers := ds \<rparr>) laps d = sharpe_driver sess laps d"
  by (simp add: sharpe_driver_def team_name_def position_def Let_def)

lemma sortino_driver_session:
  "sortino_driver (sess\<lparr> drivers := ds \<rparr>) laps d = sortino_driver sess laps d"
  by (simp add: sortino_driver_def team_name_def position_def Let_def)

text \<open>
  The rows of the result table are the rows of the drivers that have one, no more and no
  fewer.
\<close>

lemma sharpe_table_rows:
  assumes "calculate_driver_sharpe_ratio sess laps = Some tbl"
  shows "set tbl = set (List.map_filter (sharpe_driver sess (with_delta laps)) (drivers sess))
       \<and> length tbl = length (List.map_filter (sharpe_driver sess (with_delta laps)) (drivers sess))"
  using assms
  by (auto simp: calculate_driver_sharpe_ratio_def Let_def set_sort_values_desc
        length_sort_values_desc split: if_splits)

lemma sortino_table_rows:
  assumes "calculate_driver_sortino_ratio sess laps = Some tbl"
  shows "set tbl = set (List.map_filter (sortino_driver sess (with_delta laps)) (drivers sess))
       \<and> length tbl = length (List.map_filter (sortino_driver sess (with_delta laps)) (drivers sess))"
  using assms
  by (auto simp: calculate_driver_sortino_ratio_def Let_def set_sort_values_desc
        length_sort_values_desc split: if_splits)

text \<open>
  C10. A driver none of whose stints has at least 3 laps with a delta gets no row:
  the body of the driver loop appends nothing for that driver, in the Sharpe file and in
  the Sortino file, and the result of each function is the result for the session without
  that driver.
\<close>

theorem thin_competitor_omitted:
  fixes sess :: session and laps :: "ratio_lap list" and d :: string
  defines "driver_laps \<equiv> filter (\<lambda>r. ratio_lap.DriverNumber r = d) (with_delta laps)"
  assumes "\<forall>stint_number \<in> set (map Stint driver_laps).
             length (stint_laps driver_laps stint_number) < 3"
  shows "sharpe_driver sess (with_delta laps) d = None
       \<and> sortino_driver sess (with_delta laps) d = None
       \<and> calculate_driver_sharpe_ratio (sess\<lparr> drivers := removeAll d (drivers sess) \<rparr>) laps
           = calculate_driver_sharpe_ratio sess laps
       \<and> calculate_driver_sortino_ratio (sess\<lparr> drivers := removeAll d (drivers sess) \<rparr>) laps
           = calculate_driver_sortino_ratio sess laps"
proof -
  from assms(2) have thin: "\<forall>sn \<in> set (unique (map Stint driver_laps)).
                              length (stint_laps driver_laps sn) < 3"
    by (simp only: set_unique)
  have "\<forall>sn \<in> set (unique (map Stint driver_laps)). sharpe_stint driver_laps sn = None"
    using thin by (simp add: sharpe_stint_def Let_def)
  then have e1: "List.map_filter (sharpe_stint driver_laps) (unique (map Stint driver_laps)) = []"
    by (rule map_filter_Nil)
  have "\<forall>sn \<in> set (unique (map Stint driver_laps)). sortino_stint driver_laps sn = None"
    using thin by (simp add: sortino_stint_def Let_def)
  then have e2: "List.map_filter (sortino_stint driver_laps) (unique (map Stint driver_laps)) = []"
    by (rule map_filter_Nil)
  have p1: "sharpe_driver sess (with_delta laps) d = None"
    using e1 by (simp add: sharpe_driver_def Let_def driver_laps_def)
  have p2: "sortino_driver sess (with_delta laps) d = None"
    using e2 by (simp add: sortino_driver_def Let_def driver_laps_def)
  have p3: "calculate_driver_sharpe_ratio (sess\<lparr> drivers := removeAll d (drivers sess) \<rparr>) laps
            = calculate_driver_sharpe_ratio sess laps"
    using map_filter_removeAll [of "sharpe_driver sess (with_delta laps)" d "drivers sess", OF p1]
    by (simp add: calculate_driver_sharpe_ratio_def sharpe_driver_session [abs_def])
  have p4: "calculate_driver_sortino_ratio (sess\<lparr> drivers := removeAll d (drivers sess) \<rparr>) laps
            = calculate_driver_sortino_ratio sess laps"
    using map_filter_removeAll [of "sortino_driver sess (with_delta laps)" d "drivers sess", OF p2]
    by (simp add: calculate_driver_sortino_ratio_def sortino_driver_session [abs_def])
  from p1 p2 p3 p4 show ?thesis by (intro conjI)
qed

theorem thin_competitor_omitted_witness:
  "sharpe_driver two_drivers (with_delta thin_laps) ''1'' = None
   \<and> sortino_driver two_drivers (with_delta thin_laps) ''1'' = None
   \<and> map_option (map sharpe_row.Driver) (calculate_driver_sharpe_ratio two_drivers thin_laps)
       = Some [''NOR'']
   \<and> map_option (map sortino_row.Driver) (calculate_driver_sortino_ratio two_drivers thin_laps)
       = Some [''NOR'']"
proof -
  have h: "\<forall>stint_number \<in> set (map Stint (filter (\<lambda>r. ratio_lap.DriverNumber r = ''1'')
                                               (with_delta thin_laps))).
             length (stint_laps (filter (\<lambda>r. ratio_lap.DriverNumber r = ''1'')
                                        (with_delta thin_laps)) stint_number) < 3"
    by (simp add: thin_laps_def with_delta_def rlap_def stint_laps_def isna_def)
  have r: "removeAll ''1'' (drivers two_drivers) = [''4'']"
    by (simp add: two_drivers_def)
  have a: "map_option (map sharpe_row.Driver)
             (calculate_driver_sharpe_ratio (two_drivers\<lparr> drivers := [''4''] \<rparr>) thin_laps)
           = Some [''NOR'']"
    by (simp add: calculate_driver_sharpe_ratio_def sharpe_driver_def sharpe_stint_def
        stint_laps_def thin_laps_def with_delta_def rlap_def isna_def two_drivers_def
        unique_def map_filter_simps Let_def sort_values_desc_def np_average_def
        sharpe_ratio_def sortino_ratio_def downside_deltas_def series_mean_def series_std_def
        power2_eq_square)
  have b: "map_option (map sortino_row.Driver)
             (calculate_driver_sortino_ratio (two_drivers\<lparr> drivers := [''4''] \<rparr>) thin_laps)
           = Some [''NOR'']"
    by (simp add: calculate_driver_sortino_ratio_def sortino_driver_def sortino_stint_def
        stint_laps_def thin_laps_def with_delta_def rlap_def isna_def two_drivers_def
        unique_def map_filter_simps Let_def sort_values_desc_def np_average_def
        sortino_ratio_def downside_deltas_def series_mean_def series_std_def
        power2_eq_square)
  from thin_competitor_omitted [OF h, of two_drivers] a b show ?thesis
    by (simp add: r)
qed

subsection \<open>Archetypes\<close>












end
